theory Spec2Isabelle
  imports Complex_Main
begin

section \<open>rpi2casterd: the hardware control interface of \<^verbatim>\<open>rpi2casterd/main.py\<close>\<close>

text \<open>
  The development embeds class \<^verbatim>\<open>Interface\<close> and the decorator
  \<^verbatim>\<open>handle_machine_stop\<close>. Mutation of \<^verbatim>\<open>self\<close> is explicit state passing on the
  record \<open>interface\<close>; a raised exception is the left summand of the result, returned
  together with the state the exception leaves behind; a computation that does not
  return (the recursion between the decorator and \<^verbatim>\<open>machine_control(OFF)\<close>, and the
  pump stop loop, are unbounded) is \<open>None\<close>.

  Time is counted in ticks of 10 ms, the sleep of the sensor polling loop; it advances in
  \<^verbatim>\<open>time.sleep\<close> only. \<^verbatim>\<open>time.time()\<close> is the tick count over 100, a rational number of
  seconds, and every duration of the configuration is a rational number of seconds.
\<close>

subsection \<open>Exceptions, external calls, configuration\<close>

datatype error =
    MachineStopped
  | InterfaceBusy
  | InterfaceNotStarted
  | UnsupportedMode "string option"
  | UnsupportedRow16Mode "string option"
  | KeyError

text \<open>
  What the interface does to its collaborators, in order: the calls on the output driver
  (\<^verbatim>\<open>self.output.valves_on\<close>, \<^verbatim>\<open>self.output.valves_off\<close>), the calls of
  \<^verbatim>\<open>time.sleep\<close>, and each entry into \<^verbatim>\<open>send_signals\<close> with its arguments.
\<close>

datatype event =
    ValvesOn "string set"
  | ValvesOff
  | Sleep rat
  | SendSignals "string list" "rat option"

record config =
  default_mode :: "string option"
  default_row16_mode :: "string option"
  supported_modes :: "string list"
  supported_row16_modes :: "string list"
  startup_timeout :: rat
  sensor_timeout :: rat
  pump_stop_timeout :: rat
  punching_on_time :: rat
  punching_off_time :: rat
  valves :: "string list"

text \<open>
  The row 16 converters of \<^verbatim>\<open>rpi2casterd.converters\<close> (imported as \<^verbatim>\<open>cv\<close>) are not among
  the sources; \<^verbatim>\<open>prepare_signals\<close> takes them as parameters.
\<close>

record converters =
  convert_unitshift :: "string list \<Rightarrow> string set"
  convert_hmn :: "string list \<Rightarrow> string set"
  convert_kmn :: "string list \<Rightarrow> string set"

subsection \<open>The interface and its surroundings\<close>

text \<open>
  The first group of fields is \<^verbatim>\<open>self.state\<close>, \<^verbatim>\<open>self.signals\<close>, \<^verbatim>\<open>self.meter_events\<close> and
  the two mode attributes kept in \<^verbatim>\<open>self.__dict__\<close> (\<open>None\<close>: the attribute is absent). The
  second is the level of each GPIO output. The third is the environment: the clock, the
  emergency stop edge latched by the GPIO layer, and what the photocell and the
  emergency stop button will do in each coming tick.
\<close>

record interface =
  wedge_0005 :: int
  wedge_0075 :: int
  working :: bool
  water :: bool
  air :: bool
  motor :: bool
  pump :: bool
  sensor :: bool
  signals :: "string list"
  meter_events :: "rat list"
  operation_mode_attr :: "string option option"
  row16_mode_attr :: "string option option"
  working_led :: bool
  error_led :: bool
  air_gpio :: bool
  water_gpio :: bool
  motor_start_gpio :: bool
  motor_stop_gpio :: bool
  clock :: nat
  emergency_stop_event :: bool
  sensor_input :: "bool list"
  emergency_stop_input :: "bool list"
  trace :: "event list"

type_synonym 'a result = "((error + 'a) \<times> interface) option"

definition return :: "'a \<Rightarrow> interface \<Rightarrow> 'a result" where
  "return v s = Some (Inr v, s)"

definition raise :: "error \<Rightarrow> interface \<Rightarrow> 'a result" where
  "raise e s = Some (Inl e, s)"

definition seq :: "(interface \<Rightarrow> 'a result) \<Rightarrow> ('a \<Rightarrow> interface \<Rightarrow> 'b result) \<Rightarrow> interface \<Rightarrow> 'b result" where
  "seq m f s =
     (case m s of
        None \<Rightarrow> None
      | Some (r, s') \<Rightarrow> (case r of Inl e \<Rightarrow> Some (Inl e, s') | Inr v \<Rightarrow> f v s'))"

text \<open>\<^verbatim>\<open>Interface.__init__\<close>, with the environment the interface is started in.\<close>

definition init :: "bool list \<Rightarrow> bool list \<Rightarrow> interface" where
  "init sensor_in stop_in =
     \<lparr>wedge_0005 = 15, wedge_0075 = 15, working = False, water = False, air = False,
      motor = False, pump = False, sensor = False, signals = [], meter_events = [],
      operation_mode_attr = None, row16_mode_attr = None,
      working_led = False, error_led = False, air_gpio = False, water_gpio = False,
      motor_start_gpio = False, motor_stop_gpio = False,
      clock = 0, emergency_stop_event = False,
      sensor_input = sensor_in, emergency_stop_input = stop_in, trace = []\<rparr>"

subsection \<open>Time, the photocell callback and the emergency stop latch\<close>

definition time_time :: "interface \<Rightarrow> rat" where
  "time_time s = of_nat (clock s) / 100"

text \<open>\<^verbatim>\<open>deque(maxlen=3).append\<close>: the oldest entries fall out.\<close>

definition deque_append :: "nat \<Rightarrow> 'a list \<Rightarrow> 'a \<Rightarrow> 'a list" where
  "deque_append maxlen xs x = (let ys = xs @ [x] in drop (length ys - maxlen) ys)"

text \<open>The callback \<^verbatim>\<open>update_sensor\<close> of \<^verbatim>\<open>hardware_setup\<close>, run on both edges.\<close>

definition update_sensor :: "bool \<Rightarrow> interface \<Rightarrow> interface" where
  "update_sensor sensor_state s =
     (let s1 = s\<lparr>sensor := sensor_state\<rparr>
      in if sensor_state
         then s1\<lparr>meter_events := deque_append 3 (meter_events s1) (time_time s1)\<rparr>
         else s1)"

text \<open>
  One tick of 10 ms: the clock advances, a falling edge on the emergency stop line is
  latched, and a change of the photocell level runs the callback.
\<close>

definition tick :: "interface \<Rightarrow> interface" where
  "tick s =
     (let s1 = s\<lparr>clock := clock s + 1\<rparr>;
          s2 = (case emergency_stop_input s1 of
                  [] \<Rightarrow> s1
                | e # es \<Rightarrow> s1\<lparr>emergency_stop_input := es,
                                emergency_stop_event := emergency_stop_event s1 \<or> e\<rparr>)
      in case sensor_input s2 of
           [] \<Rightarrow> s2
         | l # ls \<Rightarrow>
             (let s3 = s2\<lparr>sensor_input := ls\<rparr>
              in if l \<noteq> sensor s3 then update_sensor l s3 else s3))"

primrec ticks :: "nat \<Rightarrow> interface \<Rightarrow> interface" where
  "ticks 0 s = s"
| "ticks (Suc n) s = ticks n (tick s)"

text \<open>\<^verbatim>\<open>time.sleep(seconds)\<close>.\<close>

definition sleep :: "rat \<Rightarrow> interface \<Rightarrow> interface" where
  "sleep seconds s = ticks (nat \<lceil>seconds * 100\<rceil>) (s\<lparr>trace := trace s @ [Sleep seconds]\<rparr>)"

text \<open>
  \<^verbatim>\<open>check_emergency_stop\<close>: \<^verbatim>\<open>GPIO.event_detected\<close> returns the latched edge and clears it.
\<close>

definition check_emergency_stop :: "interface \<Rightarrow> unit result" where
  "check_emergency_stop s =
     (if emergency_stop_event s
      then raise MachineStopped (s\<lparr>emergency_stop_event := False\<rparr>)
      else return () s)"

text \<open>
  The decorator \<^verbatim>\<open>handle_machine_stop\<close>. Its first argument is what
  \<^verbatim>\<open>interface.machine_control(OFF)\<close> does; an exception of that call replaces the
  \<^verbatim>\<open>MachineStopped\<close> the handler would raise.
\<close>

definition handle_machine_stop ::
  "(interface \<Rightarrow> bool result) \<Rightarrow> (interface \<Rightarrow> 'a result) \<Rightarrow> interface \<Rightarrow> 'a result" where
  "handle_machine_stop machine_control_off routine s =
     (case seq check_emergency_stop
             (\<lambda>_. seq routine (\<lambda>retval. seq check_emergency_stop (\<lambda>_. return retval))) s of
        None \<Rightarrow> None
      | Some (r, s') \<Rightarrow>
          (case r of
             Inr retval \<Rightarrow> Some (Inr retval, s')
           | Inl e \<Rightarrow>
               if e = MachineStopped
               then seq machine_control_off (\<lambda>_. raise MachineStopped) s'
               else Some (Inl e, s')))"

subsection \<open>Waiting for the cycle sensor\<close>

text \<open>Python's \<^verbatim>\<open>x or y\<close> on an optional number: \<^verbatim>\<open>None\<close> and zero are false.\<close>

definition py_or :: "'a::zero option \<Rightarrow> 'a \<Rightarrow> 'a" where
  "py_or x y = (case x of None \<Rightarrow> y | Some v \<Rightarrow> if v = 0 then y else v)"

function wait_loop :: "rat \<Rightarrow> rat \<Rightarrow> bool \<Rightarrow> interface \<Rightarrow> unit result" where
  "wait_loop start_time timeout new_state s =
     (if sensor s \<noteq> new_state
      then if time_time s - start_time > timeout
           then raise MachineStopped s
           else wait_loop start_time timeout new_state (sleep (1 / 100) s)
      else return () s)"
  by pat_completeness auto

termination
proof (relation "measure (\<lambda>(start_time, timeout, new_state, s).
         nat \<lceil>(start_time + timeout) * 100\<rceil> + 1 - clock s)")
  show "wf (measure (\<lambda>(start_time, timeout, new_state, s).
         nat \<lceil>(start_time + timeout) * 100\<rceil> + 1 - clock s))"
    by simp
next
  fix start_time timeout :: rat and new_state :: bool and s :: interface
  assume "\<not> timeout < time_time s - start_time"
  then have "of_nat (clock s) \<le> (start_time + timeout) * 100"
    by (simp add: time_time_def field_simps)
  then have bound: "clock s \<le> nat \<lceil>(start_time + timeout) * 100\<rceil>"
    by (metis le_nat_iff of_int_of_nat_eq of_nat_0_le_iff le_of_int_ceiling order_trans of_int_le_iff)
  have step: "clock (sleep (1 / 100) s) = clock s + 1"
    by (simp add: sleep_def tick_def update_sensor_def Let_def split: list.split)
  show "((start_time, timeout, new_state, sleep (1 / 100) s), (start_time, timeout, new_state, s))
        \<in> measure (\<lambda>(start_time, timeout, new_state, s).
         nat \<lceil>(start_time + timeout) * 100\<rceil> + 1 - clock s)"
    using bound step by simp
qed

declare wait_loop.simps [simp del]


definition wait_for_sensor ::
  "(interface \<Rightarrow> bool result) \<Rightarrow> config \<Rightarrow> bool \<Rightarrow> rat option \<Rightarrow> interface \<Rightarrow> unit result" where
  "wait_for_sensor machine_control_off cfg new_state timeout =
     handle_machine_stop machine_control_off
       (\<lambda>s. let start_time = time_time s;
                timeout' = py_or timeout (sensor_timeout cfg)
            in wait_loop start_time timeout' new_state s)"

subsection \<open>Operation mode and row 16 addressing mode\<close>

definition operation_mode :: "config \<Rightarrow> interface \<Rightarrow> string option" where
  "operation_mode cfg s =
     (case operation_mode_attr s of None \<Rightarrow> default_mode cfg | Some mode \<Rightarrow> mode)"

definition set_operation_mode :: "config \<Rightarrow> string option \<Rightarrow> interface \<Rightarrow> unit result" where
  "set_operation_mode cfg mode s =
     (if mode = Some ''reset''
      then return () (s\<lparr>operation_mode_attr := Some (default_mode cfg)\<rparr>)
      else if mode = None \<or> mode \<in> Some ` set (supported_modes cfg)
      then return () (s\<lparr>operation_mode_attr := Some mode\<rparr>)
      else raise (UnsupportedMode mode) s)"

definition row16_mode :: "config \<Rightarrow> interface \<Rightarrow> string option" where
  "row16_mode cfg s =
     (case row16_mode_attr s of None \<Rightarrow> default_row16_mode cfg | Some mode \<Rightarrow> mode)"

definition set_row16_mode :: "config \<Rightarrow> string option \<Rightarrow> interface \<Rightarrow> unit result" where
  "set_row16_mode cfg mode s =
     (if mode = Some ''reset''
      then return () (s\<lparr>row16_mode_attr := Some (default_row16_mode cfg)\<rparr>)
      else if mode = None
      then return () (s\<lparr>row16_mode_attr := Some mode\<rparr>)
      else if operation_mode cfg s = Some ''casting''
      then if mode \<in> Some ` set (supported_row16_modes cfg)
           then return () (s\<lparr>row16_mode_attr := Some mode\<rparr>)
           else raise (UnsupportedRow16Mode mode) s
      else if mode \<in> {Some ''HMN'', Some ''KMN'', Some ''unit shift''}
      then return () (s\<lparr>row16_mode_attr := Some mode\<rparr>)
      else return () s)"

subsection \<open>Pump and wedge inference\<close>

text \<open>Python's \<^verbatim>\<open>str\<close> on an integer.\<close>

function str_nat :: "nat \<Rightarrow> string" where
  "str_nat n =
     (if n < 10 then [''0123456789'' ! n]
      else str_nat (n div 10) @ [''0123456789'' ! (n mod 10)])"
  by pat_completeness auto

termination
  by (relation "measure (\<lambda>n. n)") auto

declare str_nat.simps [simp del]

definition str :: "int \<Rightarrow> string" where
  "str i = (if i < 0 then CHR ''-'' # str_nat (nat (- i)) else str_nat (nat i))"

definition found :: "string list \<Rightarrow> interface \<Rightarrow> bool" where
  "found code s = (set code \<subseteq> set (signals s))"

text \<open>
  The loop \<^verbatim>\<open>for pos in range(1, 15)\<close> with its \<^verbatim>\<open>break\<close> and its \<^verbatim>\<open>else\<close> branch: the
  first position whose name is among the signals, 15 when the loop runs to its end.
\<close>

primrec earliest_row :: "int list \<Rightarrow> string list \<Rightarrow> int" where
  "earliest_row [] sigs = 15"
| "earliest_row (pos # rest) sigs =
     (if str pos \<in> set sigs then pos else earliest_row rest sigs)"

definition update_pump_and_wedges :: "interface \<Rightarrow> interface" where
  "update_pump_and_wedges s =
     (let s1 = (if found [''0075''] s \<or> found [''N'', ''K''] s then s\<lparr>pump := True\<rparr>
                else if found [''0005''] s \<or> found [''N'', ''J''] s then s\<lparr>pump := False\<rparr>
                else s);
          s2 = (if found [''0075''] s1 \<or> found [''N'', ''K''] s1
                then s1\<lparr>wedge_0075 := earliest_row [1..14] (signals s1)\<rparr>
                else s1)
      in if found [''0005''] s2 \<or> found [''N'', ''J''] s2
         then s2\<lparr>wedge_0005 := earliest_row [1..14] (signals s2)\<rparr>
         else s2)"

text \<open>
  Modelled from the spec: \<^verbatim>\<open>cv.ordered_signals\<close> lives in \<^verbatim>\<open>rpi2casterd.converters\<close>, which
  is not among the sources. It returns the input names in the fixed canonical order, the
  one of the four configured valve tuples put end to end.
\<close>

definition ordered_signals :: "config \<Rightarrow> string set \<Rightarrow> string list" where
  "ordered_signals cfg source = filter (\<lambda>name. name \<in> source) (valves cfg)"

subsection \<open>Valves, motor, air and water\<close>

text \<open>
  The argument of \<^verbatim>\<open>valves_control\<close>: a set of signals (true when it is not empty),
  \<^verbatim>\<open>False\<close>, or \<^verbatim>\<open>None\<close>.
\<close>

datatype valves_state = Signals "string set" | Off | Status

definition valves_on :: "string set \<Rightarrow> interface \<Rightarrow> interface" where
  "valves_on source s = s\<lparr>trace := trace s @ [ValvesOn source]\<rparr>"

definition valves_off :: "interface \<Rightarrow> interface" where
  "valves_off s = s\<lparr>trace := trace s @ [ValvesOff]\<rparr>"

definition valves_control ::
  "(interface \<Rightarrow> bool result) \<Rightarrow> config \<Rightarrow> valves_state \<Rightarrow> interface \<Rightarrow> string list result" where
  "valves_control machine_control_off cfg state =
     handle_machine_stop machine_control_off
       (\<lambda>s. let s' = (case state of
                        Signals source \<Rightarrow>
                          if source \<noteq> {}
                          then (let s1 = valves_on source s;
                                    s2 = update_pump_and_wedges s1
                                in s2\<lparr>signals := ordered_signals cfg source\<rparr>)
                          else valves_off s
                      | Status \<Rightarrow> s
                      | Off \<Rightarrow> valves_off s)
            in return (signals s') s')"

definition motor_control ::
  "(interface \<Rightarrow> bool result) \<Rightarrow> bool option \<Rightarrow> interface \<Rightarrow> bool result" where
  "motor_control machine_control_off state =
     handle_machine_stop machine_control_off
       (\<lambda>s. case state of
               None \<Rightarrow> return (motor s) s
             | Some on \<Rightarrow>
                 if on
                 then (let s1 = s\<lparr>motor_start_gpio := True\<rparr>;
                           s2 = sleep (1 / 2) s1;
                           s3 = s2\<lparr>motor_start_gpio := False\<rparr>
                       in return True (s3\<lparr>motor := True\<rparr>))
                 else (let s1 = s\<lparr>motor_stop_gpio := True\<rparr>;
                           s2 = sleep (1 / 2) s1;
                           s3 = s2\<lparr>motor_stop_gpio := False\<rparr>
                       in return False (s3\<lparr>motor := False, meter_events := []\<rparr>)))"

definition air_control ::
  "(interface \<Rightarrow> bool result) \<Rightarrow> bool option \<Rightarrow> interface \<Rightarrow> bool result" where
  "air_control machine_control_off state =
     handle_machine_stop machine_control_off
       (\<lambda>s. case state of
               None \<Rightarrow> return (air s) s
             | Some on \<Rightarrow>
                 if on then return True (s\<lparr>air_gpio := True, air := True\<rparr>)
                 else return False (s\<lparr>air_gpio := False, air := False\<rparr>))"

definition water_control ::
  "(interface \<Rightarrow> bool result) \<Rightarrow> bool option \<Rightarrow> interface \<Rightarrow> bool result" where
  "water_control machine_control_off state =
     handle_machine_stop machine_control_off
       (\<lambda>s. case state of
               None \<Rightarrow> return (water s) s
             | Some on \<Rightarrow>
                 if on then return True (s\<lparr>water_gpio := True, water := True\<rparr>)
                 else return False (s\<lparr>water_gpio := False, water := False\<rparr>))"

subsection \<open>Preparing the signals\<close>

text \<open>\<^verbatim>\<open>str.upper\<close>, on ASCII letters.\<close>

definition upper_char :: "char \<Rightarrow> char" where
  "upper_char c =
     (case map_of (zip ''abcdefghijklmnopqrstuvwxyz'' ''ABCDEFGHIJKLMNOPQRSTUVWXYZ'') c of
        None \<Rightarrow> c
      | Some u \<Rightarrow> u)"

definition upper :: "string \<Rightarrow> string" where
  "upper t = map upper_char t"

text \<open>
  \<^verbatim>\<open>set.update\<close> with a string argument iterates over the string: each character is
  added as a signal of its own.
\<close>

definition set_update :: "string set \<Rightarrow> string \<Rightarrow> string set" where
  "set_update source_signals t = source_signals \<union> (\<lambda>c. [c]) ` set t"

definition strip_16 :: "string list \<Rightarrow> string set" where
  "strip_16 source =
     (let sigset = set (map upper source)
      in if ''16'' \<in> sigset then insert ''15'' (sigset - {''16''}) else sigset)"

definition convert_o15_step :: "string \<Rightarrow> string set \<Rightarrow> string set" where
  "convert_o15_step sig source_signals =
     (if sig \<in> source_signals then set_update (source_signals - {sig}) ''O15''
      else source_signals)"

definition convert_o15 :: "string set \<Rightarrow> string set" where
  "convert_o15 source = convert_o15_step ''15'' (convert_o15_step ''O'' source)"

definition strip_o15 :: "string set \<Rightarrow> string set" where
  "strip_o15 source = source - {''O15''}"

definition add_missing_o15 :: "string set \<Rightarrow> string set" where
  "add_missing_o15 source = (if card source < 2 then set_update source ''O15'' else source)"

definition prepare_signals ::
  "converters \<Rightarrow> config \<Rightarrow> string list \<Rightarrow> interface \<Rightarrow> string set result" where
  "prepare_signals cv cfg input_signals s =
     (let row16 = (case row16_mode cfg s of
                     None \<Rightarrow> Some strip_16
                   | Some mode \<Rightarrow>
                       if mode = ''unit shift'' then Some (convert_unitshift cv)
                       else if mode = ''HMN'' then Some (convert_hmn cv)
                       else if mode = ''KMN'' then Some (convert_kmn cv)
                       else None);
          o15 = (case operation_mode cfg s of
                   None \<Rightarrow> Some convert_o15
                 | Some mode \<Rightarrow>
                     if mode = ''casting'' then Some strip_o15
                     else if mode = ''punching'' then Some add_missing_o15
                     else None)
      in case row16 of
           None \<Rightarrow> raise KeyError s
         | Some row16_converter \<Rightarrow>
             (case o15 of
                None \<Rightarrow> raise KeyError s
              | Some o15_converter \<Rightarrow> return (o15_converter (row16_converter input_signals)) s))"

subsection \<open>Sending signals\<close>

definition cast ::
  "(interface \<Rightarrow> bool result) \<Rightarrow> converters \<Rightarrow> config \<Rightarrow> string list \<Rightarrow> rat option \<Rightarrow>
   interface \<Rightarrow> unit result" where
  "cast machine_control_off cv cfg input_signals timeout =
     seq (set_operation_mode cfg (Some ''casting'')) (\<lambda>_.
     seq (prepare_signals cv cfg input_signals) (\<lambda>codes.
     let timeout' = py_or timeout (sensor_timeout cfg) in
     seq (wait_for_sensor machine_control_off cfg True (Some timeout')) (\<lambda>_.
     seq (valves_control machine_control_off cfg (Signals codes)) (\<lambda>_.
     seq (wait_for_sensor machine_control_off cfg False (Some timeout')) (\<lambda>_.
     seq (valves_control machine_control_off cfg Off) (\<lambda>_.
     return ()))))))"

definition test ::
  "(interface \<Rightarrow> bool result) \<Rightarrow> converters \<Rightarrow> config \<Rightarrow> string list \<Rightarrow>
   interface \<Rightarrow> unit result" where
  "test machine_control_off cv cfg input_signals =
     seq (set_operation_mode cfg None) (\<lambda>_.
     seq (prepare_signals cv cfg input_signals) (\<lambda>codes.
     seq (valves_control machine_control_off cfg Off) (\<lambda>_.
     seq (valves_control machine_control_off cfg (Signals codes)) (\<lambda>_.
     return ()))))"

definition punch ::
  "(interface \<Rightarrow> bool result) \<Rightarrow> converters \<Rightarrow> config \<Rightarrow> string list \<Rightarrow>
   interface \<Rightarrow> unit result" where
  "punch machine_control_off cv cfg input_signals =
     seq (set_operation_mode cfg (Some ''punching'')) (\<lambda>_.
     seq (prepare_signals cv cfg input_signals) (\<lambda>codes.
     seq (valves_control machine_control_off cfg (Signals codes)) (\<lambda>_.
     seq (\<lambda>s. return () (sleep (punching_on_time cfg) s)) (\<lambda>_.
     seq (valves_control machine_control_off cfg Off) (\<lambda>_.
     (\<lambda>s. return () (sleep (punching_off_time cfg) s)))))))"

definition send_signals ::
  "(interface \<Rightarrow> bool result) \<Rightarrow> converters \<Rightarrow> config \<Rightarrow> string list \<Rightarrow> rat option \<Rightarrow>
   interface \<Rightarrow> unit result" where
  "send_signals machine_control_off cv cfg sigs timeout s =
     (let s0 = s\<lparr>trace := trace s @ [SendSignals sigs timeout]\<rparr>
      in if \<not> working s0 then raise InterfaceNotStarted s0
         else (case operation_mode cfg s0 of
                 None \<Rightarrow> test machine_control_off cv cfg sigs s0
               | Some mode \<Rightarrow>
                   if mode = ''casting'' then cast machine_control_off cv cfg sigs timeout s0
                   else if mode = ''punching'' then punch machine_control_off cv cfg sigs s0
                   else raise KeyError s0))"

subsection \<open>Pump control and justification\<close>

definition pump_control_start ::
  "(interface \<Rightarrow> bool result) \<Rightarrow> converters \<Rightarrow> config \<Rightarrow> interface \<Rightarrow> unit result" where
  "pump_control_start machine_control_off cv cfg s =
     (let wedge_position = wedge_0075 s;
          pump_start_code = [''N'', ''K'', ''S'', ''0075''] @ [str wedge_position]
      in send_signals machine_control_off cv cfg pump_start_code None s)"

text \<open>
  The loop \<^verbatim>\<open>while self.state['pump']\<close> of the pump stop routine, two sends each time
  round. Nothing bounds it: the first argument is the number of rounds after which the
  model gives up.
\<close>

primrec pump_stop_loop :: "nat \<Rightarrow> (interface \<Rightarrow> unit result) \<Rightarrow> interface \<Rightarrow> unit result" where
  "pump_stop_loop 0 send s = (if pump s then None else return () s)"
| "pump_stop_loop (Suc n) send s =
     (if pump s then seq send (\<lambda>_. seq send (\<lambda>_. pump_stop_loop n send)) s
      else return () s)"

definition pump_control_stop ::
  "(interface \<Rightarrow> bool result) \<Rightarrow> nat \<Rightarrow> converters \<Rightarrow> config \<Rightarrow> interface \<Rightarrow> unit result" where
  "pump_control_stop machine_control_off n cv cfg s =
     (if \<not> pump s then return () s
      else (let working_led_state = working_led s;
                s1 = (if working_led_state then s\<lparr>working_led := False\<rparr> else s);
                s2 = s1\<lparr>error_led := True\<rparr>;
                wedge_position = wedge_0005 s2;
                pump_stop_code = [''N'', ''J'', ''S'', ''0005''] @ [str wedge_position];
                timeout = pump_stop_timeout cfg
            in seq (pump_stop_loop n
                     (send_signals machine_control_off cv cfg pump_stop_code (Some timeout)))
                 (\<lambda>_ s3.
                    let s4 = s3\<lparr>error_led := False\<rparr>
                    in return () (if working_led_state then s4\<lparr>working_led := True\<rparr> else s4))
                 s2))"

definition pump_control ::
  "(interface \<Rightarrow> bool result) \<Rightarrow> nat \<Rightarrow> converters \<Rightarrow> config \<Rightarrow> bool option \<Rightarrow>
   interface \<Rightarrow> bool result" where
  "pump_control machine_control_off n cv cfg state =
     seq (case state of
            None \<Rightarrow> return ()
          | Some on \<Rightarrow>
              if on then pump_control_start machine_control_off cv cfg
              else pump_control_stop machine_control_off n cv cfg)
       (\<lambda>_ s. return (pump s) s)"

definition justification ::
  "(interface \<Rightarrow> bool result) \<Rightarrow> converters \<Rightarrow> config \<Rightarrow> bool \<Rightarrow> int option \<Rightarrow> int option \<Rightarrow>
   interface \<Rightarrow> unit result" where
  "justification machine_control_off cv cfg galley_trip wedge_0005_arg wedge_0075_arg s =
     (let pump_working = pump s;
          current_0005 = wedge_0005 s;
          current_0075 = wedge_0075 s;
          new_0005 = py_or wedge_0005_arg current_0005;
          new_0075 = py_or wedge_0075_arg current_0075;
          send_double = (\<lambda>code. send_signals machine_control_off cv cfg
                           ([''N'', ''K'', ''J'', ''S''] @ [''0075'', ''0005'', str code]) None);
          send_0005 = send_signals machine_control_off cv cfg
                        ([''N'', ''J'', ''S''] @ [''0005'', str new_0005]) None;
          send_0075 = send_signals machine_control_off cv cfg
                        ([''N'', ''K'', ''S''] @ [''0075'', str new_0075]) None
      in if galley_trip
         then if pump_working
              then seq (send_double new_0005) (\<lambda>_. send_0075) s
              else seq (send_double new_0075) (\<lambda>_. send_0005) s
         else if new_0005 = current_0005 \<and> new_0075 = current_0075
         then return () s
         else if pump_working
              then seq send_0005 (\<lambda>_. send_0075) s
              else seq send_0075 (\<lambda>_. send_0005) s)"

subsection \<open>Machine control\<close>

primrec check_rotation_loop :: "nat \<Rightarrow> (interface \<Rightarrow> unit result) \<Rightarrow> interface \<Rightarrow> unit result" where
  "check_rotation_loop 0 body s = return () s"
| "check_rotation_loop (Suc n) body s = seq body (\<lambda>_. check_rotation_loop n body) s"

definition check_rotation ::
  "(interface \<Rightarrow> bool result) \<Rightarrow> config \<Rightarrow> nat \<Rightarrow> interface \<Rightarrow> unit result" where
  "check_rotation machine_control_off cfg revolutions =
     (let timeout = startup_timeout cfg
      in check_rotation_loop revolutions
           (seq (wait_for_sensor machine_control_off cfg True (Some timeout)) (\<lambda>_.
                 wait_for_sensor machine_control_off cfg False (Some timeout))))"

definition machine_control_start ::
  "(interface \<Rightarrow> bool result) \<Rightarrow> config \<Rightarrow> interface \<Rightarrow> unit result" where
  "machine_control_start machine_control_off cfg s =
     (if working s then raise InterfaceBusy s
      else seq (air_control machine_control_off (Some True)) (\<lambda>_.
           seq (\<lambda>s. if operation_mode cfg s = Some ''casting''
                    then seq (water_control machine_control_off (Some True)) (\<lambda>_.
                         seq (motor_control machine_control_off (Some True)) (\<lambda>_.
                         check_rotation machine_control_off cfg 3)) s
                    else return () s) (\<lambda>_ s.
           return () (s\<lparr>working_led := True, working := True\<rparr>)))
             (s\<lparr>meter_events := []\<rparr>))"

definition machine_control_stop ::
  "(interface \<Rightarrow> bool result) \<Rightarrow> nat \<Rightarrow> converters \<Rightarrow> config \<Rightarrow> interface \<Rightarrow> unit result" where
  "machine_control_stop machine_control_off n cv cfg s =
     (if \<not> working s then return () s
      else seq (pump_control machine_control_off n cv cfg (Some False)) (\<lambda>_.
           seq (valves_control machine_control_off cfg Off) (\<lambda>_.
           seq (\<lambda>s. return () (s\<lparr>signals := []\<rparr>)) (\<lambda>_.
           seq (\<lambda>s. if operation_mode cfg s = Some ''casting''
                    then seq (motor_control machine_control_off (Some False)) (\<lambda>_.
                         seq (water_control machine_control_off (Some False)) (\<lambda>_.
                         return ())) s
                    else return () s) (\<lambda>_.
           seq (air_control machine_control_off (Some False)) (\<lambda>_ s.
           return () (s\<lparr>working_led := False, working := False\<rparr>)))))) s)"

text \<open>
  \<^verbatim>\<open>machine_control(OFF)\<close>. The decorator calls it from inside the operations it itself
  calls, so the nesting of these calls is not bounded; the first argument bounds it, and
  also bounds the rounds of the pump stop loop.
\<close>

primrec machine_control_off :: "nat \<Rightarrow> converters \<Rightarrow> config \<Rightarrow> interface \<Rightarrow> bool result" where
  "machine_control_off 0 cv cfg s = None"
| "machine_control_off (Suc n) cv cfg s =
     seq (machine_control_stop (\<lambda>s'. machine_control_off n cv cfg s') n cv cfg)
       (\<lambda>_ s'. return (working s') s') s"

definition machine_control ::
  "nat \<Rightarrow> converters \<Rightarrow> config \<Rightarrow> bool option \<Rightarrow> interface \<Rightarrow> bool result" where
  "machine_control n cv cfg state s =
     (case state of
        None \<Rightarrow> return (working s) s
      | Some on \<Rightarrow>
          if on
          then seq (machine_control_start (machine_control_off n cv cfg) cfg)
                 (\<lambda>_ s'. return (working s') s') s
          else machine_control_off (Suc n) cv cfg s)"

subsection \<open>Reachable states\<close>

text \<open>
  The operations a client of the interface can invoke, and the state each leaves behind,
  whether it returns or raises. Between two calls time may pass.
\<close>

datatype call =
    MachineControl "bool option"
  | PumpControl "bool option"
  | ValvesControl valves_state
  | MotorControl "bool option"
  | AirControl "bool option"
  | WaterControl "bool option"
  | Justification bool "int option" "int option"
  | SendSignalsCall "string list" "rat option"
  | WaitForSensor bool "rat option"
  | CheckRotation nat
  | SetOperationMode "string option"
  | SetRow16Mode "string option"

definition perform :: "nat \<Rightarrow> converters \<Rightarrow> config \<Rightarrow> call \<Rightarrow> interface \<Rightarrow> interface option" where
  "perform n cv cfg c s =
     (let off = machine_control_off n cv cfg
      in case c of
           MachineControl state \<Rightarrow> map_option snd (machine_control n cv cfg state s)
         | PumpControl state \<Rightarrow> map_option snd (pump_control off n cv cfg state s)
         | ValvesControl state \<Rightarrow> map_option snd (valves_control off cfg state s)
         | MotorControl state \<Rightarrow> map_option snd (motor_control off state s)
         | AirControl state \<Rightarrow> map_option snd (air_control off state s)
         | WaterControl state \<Rightarrow> map_option snd (water_control off state s)
         | Justification galley_trip w5 w75 \<Rightarrow>
             map_option snd (justification off cv cfg galley_trip w5 w75 s)
         | SendSignalsCall sigs timeout \<Rightarrow> map_option snd (send_signals off cv cfg sigs timeout s)
         | WaitForSensor new_state timeout \<Rightarrow>
             map_option snd (wait_for_sensor off cfg new_state timeout s)
         | CheckRotation revolutions \<Rightarrow> map_option snd (check_rotation off cfg revolutions s)
         | SetOperationMode mode \<Rightarrow> map_option snd (set_operation_mode cfg mode s)
         | SetRow16Mode mode \<Rightarrow> map_option snd (set_row16_mode cfg mode s))"

inductive reachable :: "converters \<Rightarrow> config \<Rightarrow> interface \<Rightarrow> bool" for cv cfg where
  created: "reachable cv cfg (init sensor_in stop_in)"
| called: "reachable cv cfg s \<Longrightarrow> perform n cv cfg c s = Some s' \<Longrightarrow> reachable cv cfg s'"
| waited: "reachable cv cfg s \<Longrightarrow> reachable cv cfg (tick s)"

definition wedges_in_range :: "interface \<Rightarrow> bool" where
  "wedges_in_range s \<longleftrightarrow>
     1 \<le> wedge_0005 s \<and> wedge_0005 s \<le> 15 \<and> 1 \<le> wedge_0075 s \<and> wedge_0075 s \<le> 15"

text \<open>The entries of a trace that are calls of \<^verbatim>\<open>send_signals\<close>.\<close>

primrec is_send :: "event \<Rightarrow> bool" where
  "is_send (ValvesOn source) = False"
| "is_send ValvesOff = False"
| "is_send (Sleep seconds) = False"
| "is_send (SendSignals sigs timeout) = True"

definition sends :: "interface \<Rightarrow> event list" where
  "sends s = filter is_send (trace s)"

subsection \<open>A concrete configuration\<close>

text \<open>
  The \<^verbatim>\<open>DEFAULTS\<close> of \<^verbatim>\<open>main.py\<close>, with the default operation mode of the interface's
  section as argument and no row 16 addressing. The valves are the four tuples
  \<^verbatim>\<open>valve1\<close> to \<^verbatim>\<open>valve4\<close> in their order; the names of one character are written as one
  string.
\<close>

definition defaults :: "string option \<Rightarrow> config" where
  "defaults mode =
     \<lparr>default_mode = mode, default_row16_mode = None,
      supported_modes = [''casting'', ''punching''],
      supported_row16_modes = [''HMN'', ''KMN'', ''unit shift''],
      startup_timeout = 30, sensor_timeout = 5, pump_stop_timeout = 120,
      punching_on_time = 1 / 5, punching_off_time = 3 / 10,
      valves = map (\<lambda>c. [c]) ''NMLKJIHG''
               @ [''F'', ''S'', ''E'', ''D'', ''0075'', ''C'', ''B'', ''A'']
               @ map (\<lambda>c. [c]) ''12345678''
               @ [''9'', ''10'', ''11'', ''12'', ''13'', ''14'', ''0005'', ''O15'']\<rparr>"

text \<open>
  The runs below keep the row 16 addressing mode at \<^verbatim>\<open>None\<close>, where \<^verbatim>\<open>prepare_signals\<close>
  applies \<^verbatim>\<open>strip_16\<close> and none of the three converters; this record only fills the
  parameter.
\<close>

definition no_row16 :: converters where
  "no_row16 = \<lparr>convert_unitshift = strip_16, convert_hmn = strip_16, convert_kmn = strip_16\<rparr>"

text \<open>
  The interface of a perforator after \<^verbatim>\<open>machine_control(ON)\<close>: compressed air on, the
  working LED lit.
\<close>

definition started :: interface where
  "started = (init [] [])\<lparr>working := True, air := True, working_led := True, air_gpio := True\<rparr>"

text \<open>
  The perforator after three more calls, \<^verbatim>\<open>send_signals(['N','J','S','0005','8'])\<close>,
  \<^verbatim>\<open>send_signals(['N','K','S','0075','3'])\<close> and \<^verbatim>\<open>send_signals(['A','B'])\<close>: the pump is
  taken to be running, with the wedges at 8 and 3.
\<close>

definition pump_running :: interface where
  "pump_running =
     started\<lparr>wedge_0005 := 8, wedge_0075 := 3, pump := True, signals := [''B'', ''A''],
       operation_mode_attr := Some (Some ''punching''), clock := 150,
       trace := [SendSignals [''N'', ''J'', ''S'', ''0005'', ''8''] None,
                 ValvesOn {''N'', ''J'', ''S'', ''0005'', ''8''}, Sleep (1 / 5), ValvesOff,
                 Sleep (3 / 10),
                 SendSignals [''N'', ''K'', ''S'', ''0075'', ''3''] None,
                 ValvesOn {''N'', ''K'', ''S'', ''0075'', ''3''}, Sleep (1 / 5), ValvesOff,
                 Sleep (3 / 10),
                 SendSignals [''A'', ''B''] None,
                 ValvesOn {''A'', ''B''}, Sleep (1 / 5), ValvesOff, Sleep (3 / 10)]\<rparr>"

text \<open>
  Two relations between the state before and the state after an operation, used to say
  what an operation leaves alone: \<open>steady\<close> for the two LEDs and the calls of
  \<^verbatim>\<open>send_signals\<close> made so far, \<open>normally\<close> for what holds whenever an operation returns
  without raising.
\<close>

definition steady :: "interface \<Rightarrow> interface \<Rightarrow> bool" where
  "steady s s' \<longleftrightarrow>
     working_led s' = working_led s \<and> error_led s' = error_led s \<and> sends s' = sends s"

definition normally ::
  "(interface \<Rightarrow> interface \<Rightarrow> bool) \<Rightarrow> (interface \<Rightarrow> 'a result) \<Rightarrow> bool" where
  "normally R m \<longleftrightarrow> (\<forall>s v s'. m s = Some (Inr v, s') \<longrightarrow> R s s')"

text \<open>
  An operation keeps the wedges in range when every state it can end in, returning or
  raising, has them in range provided the state it started in had.
\<close>

definition keeps :: "(interface \<Rightarrow> 'a result) \<Rightarrow> bool" where
  "keeps m \<longleftrightarrow> (\<forall>s r s'. wedges_in_range s \<longrightarrow> m s = Some (r, s') \<longrightarrow> wedges_in_range s')"

text \<open>
  The wedge position in the words of the specification: the smallest integer name from 1
  to 14 among the signals, 15 when there is none.
\<close>

definition smallest_row :: "string list \<Rightarrow> int" where
  "smallest_row sigs =
     (if \<exists>pos\<in>{1..14}. str pos \<in> set sigs
      then Min {pos \<in> {1..14}. str pos \<in> set sigs}
      else 15)"

section \<open>Properties\<close>

subsection \<open>Row 16 addressing mode outside casting\<close>

text \<open>
  C10. When the operation mode is not casting, setting \<^verbatim>\<open>row16_mode\<close> to a value other than
  HMN, KMN, unit shift, \<^verbatim>\<open>None\<close> and reset raises nothing and leaves the interface as it
  was; outside casting the setter raises for no value at all.
\<close>

theorem row16_mode_ignored_outside_casting:
  assumes "operation_mode cfg s \<noteq> Some ''casting''"
    and "mode \<notin> {Some ''HMN'', Some ''KMN'', Some ''unit shift'', None, Some ''reset''}"
  shows "set_row16_mode cfg mode s = Some (Inr (), s)
         \<and> (\<forall>m e s'. set_row16_mode cfg m s \<noteq> Some (Inl e, s'))"
  using assms by (auto simp add: set_row16_mode_def return_def)

theorem row16_mode_ignored_outside_casting_witness:
  "operation_mode (defaults (Some ''punching'')) (init [] []) \<noteq> Some ''casting''
   \<and> Some ''XYZ'' \<notin> {Some ''HMN'', Some ''KMN'', Some ''unit shift'', None, Some ''reset''}
   \<and> set_row16_mode (defaults (Some ''punching'')) (Some ''XYZ'') (init [] [])
       = Some (Inr (), init [] [])"
proof -
  have h1: "operation_mode (defaults (Some ''punching'')) (init [] []) \<noteq> Some ''casting''"
    by (simp add: operation_mode_def defaults_def init_def)
  have h2: "Some ''XYZ'' \<notin> {Some ''HMN'', Some ''KMN'', Some ''unit shift'', None, Some ''reset''}"
    by simp
  show ?thesis using h1 h2 row16_mode_ignored_outside_casting [OF h1 h2] by simp
qed

subsection \<open>Starting an interface that is working\<close>

text \<open>
  C6. \<^verbatim>\<open>machine_control(ON)\<close> on an interface with \<^verbatim>\<open>working\<close> set raises
  \<^verbatim>\<open>InterfaceBusy\<close>, and the whole state of the interface is the one before the call.
\<close>

theorem machine_control_on_while_working:
  "working s \<Longrightarrow> machine_control n cv cfg (Some True) s = Some (Inl InterfaceBusy, s)"
  by (simp add: machine_control_def machine_control_start_def seq_def raise_def)

theorem machine_control_on_while_working_witness:
  "working started
   \<and> machine_control 1 no_row16 (defaults (Some ''punching'')) (Some True) started
       = Some (Inl InterfaceBusy, started)"
  using machine_control_on_while_working [of started 1 no_row16 "defaults (Some ''punching'')"]
  by (simp add: started_def)

subsection \<open>Runs of the perforator\<close>

text \<open>
  While neither the photocell nor the emergency stop button does anything, sleeping only
  moves the clock.
\<close>

lemma rows: "[1..14] = [1, 2, 3, 4, 5, 6, 7, 8, 9, 10, 11, 12, 13, 14 :: int]"
  by (simp add: upto.simps)

lemma tick_idle:
  "sensor_input s = [] \<Longrightarrow> emergency_stop_input s = [] \<Longrightarrow> tick s = s\<lparr>clock := clock s + 1\<rparr>"
  by (simp add: tick_def)

lemma ticks_idle:
  "sensor_input s = [] \<Longrightarrow> emergency_stop_input s = [] \<Longrightarrow> ticks n s = s\<lparr>clock := clock s + n\<rparr>"
  by (induction n arbitrary: s) (simp_all add: tick_idle)

lemma sleep_idle:
  "sensor_input s = [] \<Longrightarrow> emergency_stop_input s = [] \<Longrightarrow>
   sleep d s = s\<lparr>trace := trace s @ [Sleep d], clock := clock s + nat \<lceil>d * 100\<rceil>\<rparr>"
  by (simp add: sleep_def ticks_idle)

lemmas exec = return_def raise_def seq_def handle_machine_stop_def check_emergency_stop_def
  valves_control_def valves_on_def valves_off_def update_pump_and_wedges_def found_def
  ordered_signals_def send_signals_def punch_def set_operation_mode_def prepare_signals_def
  operation_mode_def row16_mode_def strip_16_def add_missing_o15_def set_update_def upper_def
  upper_char_def sleep_idle rows str_def str_nat.simps Let_def

lemma machine_control_on_started:
  "machine_control 1 no_row16 (defaults (Some ''punching'')) (Some True) (init [] [])
     = Some (Inr True, started)"
  by (simp add: exec machine_control_def machine_control_start_def air_control_def
        started_def init_def defaults_def)

lemma pump_running_reached:
  "seq (send_signals (machine_control_off 1 no_row16 (defaults (Some ''punching''))) no_row16
          (defaults (Some ''punching'')) [''N'', ''J'', ''S'', ''0005'', ''8''] None) (\<lambda>_.
   seq (send_signals (machine_control_off 1 no_row16 (defaults (Some ''punching''))) no_row16
          (defaults (Some ''punching'')) [''N'', ''K'', ''S'', ''0075'', ''3''] None) (\<lambda>_.
   send_signals (machine_control_off 1 no_row16 (defaults (Some ''punching''))) no_row16
          (defaults (Some ''punching'')) [''A'', ''B''] None)) started
   = Some (Inr (), pump_running)"
  by (simp add: exec pump_running_def started_def init_def defaults_def)

text \<open>
  C1. \<^verbatim>\<open>valves_control\<close> calls \<^verbatim>\<open>valves_on\<close>, then \<^verbatim>\<open>update_pump_and_wedges\<close>, then stores
  the ordered signals; but \<^verbatim>\<open>update_pump_and_wedges\<close> reads \<^verbatim>\<open>self.signals\<close>, which still
  holds the signals of the call before. On a new interface the pump start combination
  N K S 0075 3 leaves the pump off and the 0075 wedge at 15; it is the next call, with the
  signal A alone, that sets the pump on and the wedge to 3.
\<close>

theorem valves_control_reads_stored_signals:
  "valves_control (machine_control_off 1 no_row16 (defaults (Some ''punching'')))
     (defaults (Some ''punching'')) (Signals {''N'', ''K'', ''S'', ''0075'', ''3''}) (init [] [])
   = Some (Inr [''N'', ''K'', ''S'', ''0075'', ''3''],
       (init [] [])\<lparr>signals := [''N'', ''K'', ''S'', ''0075'', ''3''],
                     trace := [ValvesOn {''N'', ''K'', ''S'', ''0075'', ''3''}]\<rparr>)
   \<and> valves_control (machine_control_off 1 no_row16 (defaults (Some ''punching'')))
     (defaults (Some ''punching'')) (Signals {''A''})
     ((init [] [])\<lparr>signals := [''N'', ''K'', ''S'', ''0075'', ''3''],
                    trace := [ValvesOn {''N'', ''K'', ''S'', ''0075'', ''3''}]\<rparr>)
   = Some (Inr [''A''],
       (init [] [])\<lparr>pump := True, wedge_0075 := 3, signals := [''A''],
                     trace := [ValvesOn {''N'', ''K'', ''S'', ''0075'', ''3''}, ValvesOn {''A''}]\<rparr>)"
  by (simp add: exec init_def defaults_def)

text \<open>
  C2. In punching mode \<^verbatim>\<open>send_signals(['A'])\<close> turns the valves on, sleeps
  \<^verbatim>\<open>punching_on_time\<close>, turns them off and sleeps \<^verbatim>\<open>punching_off_time\<close>; but
  \<^verbatim>\<open>add_missing_o15\<close> adds the three characters of the string O15, so the driver is given
  the signals A, O, 1 and 5 and not the signal O15.
\<close>

theorem punching_short_input:
  "send_signals (machine_control_off 1 no_row16 (defaults (Some ''punching''))) no_row16
     (defaults (Some ''punching'')) [''A''] None started
   = Some (Inr (), started\<lparr>signals := [''A'', ''1'', ''5''],
        operation_mode_attr := Some (Some ''punching''), clock := 50,
        trace := [SendSignals [''A''] None, ValvesOn {''O'', ''1'', ''5'', ''A''},
                  Sleep (1 / 5), ValvesOff, Sleep (3 / 10)]\<rparr>)"
  by (simp add: exec started_def init_def defaults_def)

text \<open>
  C5. With the pump running and the wedges at 8 and 3,
  \<^verbatim>\<open>justification(galley_trip=True, wedge_0005=12, wedge_0075=4)\<close> sends N K J S 0075 0005 12
  and then N K S 0075 4, as claimed; but the state is inferred one send late, so the call
  ends with both wedges at 12, the 0075 wedge not at 4.
\<close>

theorem galley_trip_with_pump_running:
  "pump pump_running \<and> wedge_0005 pump_running = 8 \<and> wedge_0075 pump_running = 3
   \<and> justification (machine_control_off 1 no_row16 (defaults (Some ''punching''))) no_row16
       (defaults (Some ''punching'')) True (Some 12) (Some 4) pump_running
     = Some (Inr (),
         pump_running\<lparr>wedge_0005 := 12, wedge_0075 := 12,
           signals := [''N'', ''K'', ''S'', ''0075'', ''4''], clock := 250,
           trace := trace pump_running @
             [SendSignals [''N'', ''K'', ''J'', ''S'', ''0075'', ''0005'', ''12''] None,
              ValvesOn {''N'', ''K'', ''J'', ''S'', ''0075'', ''0005'', ''12''},
              Sleep (1 / 5), ValvesOff, Sleep (3 / 10),
              SendSignals [''N'', ''K'', ''S'', ''0075'', ''4''] None,
              ValvesOn {''N'', ''K'', ''S'', ''0075'', ''4''},
              Sleep (1 / 5), ValvesOff, Sleep (3 / 10)]\<rparr>)"
  by (simp add: exec justification_def py_or_def pump_running_def started_def init_def
        defaults_def)

subsection \<open>Waiting for the sensor and the emergency stop\<close>






lemma wait_loop_result:
  "wait_loop start_time timeout new_state s = Some (r, s') \<Longrightarrow>
   \<exists>k. s' = (sleep (1 / 100) ^^ k) s \<and> (r = Inr () \<longrightarrow> sensor s' = new_state)
       \<and> (r = Inr () \<or> r = Inl MachineStopped)"
proof (induction start_time timeout new_state s rule: wait_loop.induct)
  case (1 start_time timeout new_state s)
  show ?case
  proof (cases "sensor s \<noteq> new_state")
    case False
    with "1.prems" have "s' = s" "r = Inr ()"
      by (simp_all add: wait_loop.simps return_def)
    then have "s' = (sleep (1 / 100) ^^ 0) s \<and> (r = Inr () \<longrightarrow> sensor s' = new_state)
       \<and> (r = Inr () \<or> r = Inl MachineStopped)"
      using False by simp
    then show ?thesis by blast
  next
    case True
    show ?thesis
    proof (cases "time_time s - start_time > timeout")
      case late: True
      with True "1.prems" have "s' = s" "r = Inl MachineStopped"
        by (simp_all add: wait_loop.simps raise_def)
      then have "s' = (sleep (1 / 100) ^^ 0) s \<and> (r = Inr () \<longrightarrow> sensor s' = new_state)
       \<and> (r = Inr () \<or> r = Inl MachineStopped)"
        by simp
      then show ?thesis by blast
    next
      case False
      with True "1.prems"
      have "wait_loop start_time timeout new_state (sleep (1 / 100) s) = Some (r, s')"
        by (simp add: wait_loop.simps)
      from "1.IH" [OF True False this]
      obtain k where "s' = (sleep (1 / 100) ^^ k) (sleep (1 / 100) s)"
        and "r = Inr () \<longrightarrow> sensor s' = new_state" and "r = Inr () \<or> r = Inl MachineStopped"
        by blast
      then have "s' = (sleep (1 / 100) ^^ Suc k) s \<and> (r = Inr () \<longrightarrow> sensor s' = new_state)
        \<and> (r = Inr () \<or> r = Inl MachineStopped)"
        by (simp add: funpow_swap1)
      then show ?thesis by blast
    qed
  qed
qed






subsection \<open>What a call that returns leaves alone\<close>

lemma seq_normalE:
  assumes "seq m f s = Some (Inr v, s')"
  obtains u s1 where "m s = Some (Inr u, s1)" and "f u s1 = Some (Inr v, s')"
  using assms by (auto simp add: seq_def split: option.splits prod.splits sum.splits)

lemma handle_machine_stop_normal:
  assumes "handle_machine_stop off routine s = Some (Inr v, s')"
  shows "routine s = Some (Inr v, s')"
    and "\<not> emergency_stop_event s" and "\<not> emergency_stop_event s'"
  using assms
  by (auto simp add: handle_machine_stop_def check_emergency_stop_def seq_def return_def
      raise_def split: option.splits prod.splits sum.splits if_splits)

lemma tick_fields [simp]:
  "wedge_0005 (tick s) = wedge_0005 s" "wedge_0075 (tick s) = wedge_0075 s"
  "working (tick s) = working s" "water (tick s) = water s" "air (tick s) = air s"
  "motor (tick s) = motor s" "pump (tick s) = pump s" "signals (tick s) = signals s"
  "operation_mode_attr (tick s) = operation_mode_attr s"
  "row16_mode_attr (tick s) = row16_mode_attr s"
  "working_led (tick s) = working_led s" "error_led (tick s) = error_led s"
  "trace (tick s) = trace s"
  by (simp_all add: tick_def update_sensor_def Let_def split: list.split)

lemma ticks_fields [simp]:
  "wedge_0005 (ticks n s) = wedge_0005 s" "wedge_0075 (ticks n s) = wedge_0075 s"
  "working (ticks n s) = working s" "water (ticks n s) = water s" "air (ticks n s) = air s"
  "motor (ticks n s) = motor s" "pump (ticks n s) = pump s" "signals (ticks n s) = signals s"
  "operation_mode_attr (ticks n s) = operation_mode_attr s"
  "row16_mode_attr (ticks n s) = row16_mode_attr s"
  "working_led (ticks n s) = working_led s" "error_led (ticks n s) = error_led s"
  "trace (ticks n s) = trace s"
  by (induction n arbitrary: s; simp)+

lemma sleep_fields [simp]:
  "wedge_0005 (sleep d s) = wedge_0005 s" "wedge_0075 (sleep d s) = wedge_0075 s"
  "working (sleep d s) = working s" "water (sleep d s) = water s" "air (sleep d s) = air s"
  "motor (sleep d s) = motor s" "pump (sleep d s) = pump s" "signals (sleep d s) = signals s"
  "operation_mode_attr (sleep d s) = operation_mode_attr s"
  "row16_mode_attr (sleep d s) = row16_mode_attr s"
  "working_led (sleep d s) = working_led s" "error_led (sleep d s) = error_led s"
  "trace (sleep d s) = trace s @ [Sleep d]"
  by (simp_all add: sleep_def)

lemma steady_refl: "steady s s"
  by (simp add: steady_def)

lemma steady_trans: "steady s s1 \<Longrightarrow> steady s1 s' \<Longrightarrow> steady s s'"
  by (simp add: steady_def)

lemma steady_sleep: "steady s (sleep d s)"
  by (simp add: steady_def sends_def)

lemma steady_sleeps: "steady s ((sleep d ^^ k) s)"
  by (induction k) (auto intro: steady_refl steady_trans steady_sleep)

lemma normally_return: "normally steady (return v)"
  by (simp add: normally_def return_def steady_refl)

lemma normally_raise: "normally R (raise e)"
  by (simp add: normally_def raise_def)

lemma normally_seq:
  assumes "normally steady m" and "\<And>u. normally steady (f u)"
  shows "normally steady (seq m f)"
  unfolding normally_def
proof (intro allI impI)
  fix s v s'
  assume "seq m f s = Some (Inr v, s')"
  then obtain u s1 where "m s = Some (Inr u, s1)" and "f u s1 = Some (Inr v, s')"
    by (rule seq_normalE)
  with assms have "steady s s1" and "steady s1 s'"
    by (auto simp add: normally_def)
  then show "steady s s'" by (rule steady_trans)
qed

lemma normally_handle:
  "normally R routine \<Longrightarrow> normally R (handle_machine_stop off routine)"
  unfolding normally_def by (blast dest: handle_machine_stop_normal(1))

lemma normally_step: "(\<And>s. steady s (g s)) \<Longrightarrow> normally steady (\<lambda>s. return v (g s))"
  by (simp add: normally_def return_def)

lemma normally_wait_loop: "normally steady (wait_loop start_time timeout new_state)"
  unfolding normally_def using wait_loop_result steady_sleeps by blast

lemma normally_wait_for_sensor: "normally steady (wait_for_sensor off cfg new_state timeout)"
  unfolding wait_for_sensor_def
  by (rule normally_handle) (simp add: normally_def Let_def normally_wait_loop [unfolded normally_def])

lemma steady_update_pump_and_wedges: "steady s (update_pump_and_wedges s)"
  by (simp add: steady_def sends_def update_pump_and_wedges_def Let_def)

lemma normally_valves_control: "normally steady (valves_control off cfg state)"
  unfolding valves_control_def
  by (rule normally_handle)
     (auto simp add: normally_def return_def Let_def steady_def sends_def valves_on_def
        valves_off_def update_pump_and_wedges_def split: valves_state.splits)

lemma normally_set_operation_mode: "normally steady (set_operation_mode cfg mode)"
  by (auto simp add: normally_def set_operation_mode_def return_def raise_def steady_def sends_def
      split: if_splits)

lemma normally_prepare_signals: "normally steady (prepare_signals cv cfg input_signals)"
  by (auto simp add: normally_def prepare_signals_def return_def raise_def steady_refl Let_def
      split: option.splits if_splits)

lemma normally_cast: "normally steady (cast off cv cfg input_signals timeout)"
  unfolding cast_def Let_def
  by (intro normally_seq normally_set_operation_mode normally_prepare_signals
      normally_wait_for_sensor normally_valves_control normally_return)

lemma normally_test: "normally steady (test off cv cfg input_signals)"
  unfolding test_def
  by (intro normally_seq normally_set_operation_mode normally_prepare_signals
      normally_valves_control normally_return)

lemma normally_punch: "normally steady (punch off cv cfg input_signals)"
  unfolding punch_def
  by (intro normally_seq normally_set_operation_mode normally_prepare_signals
      normally_valves_control normally_step steady_sleep)

lemma send_signals_normal:
  assumes "send_signals off cv cfg sigs timeout s = Some (Inr v, s')"
  shows "working_led s' = working_led s" and "error_led s' = error_led s"
    and "sends s' = sends s @ [SendSignals sigs timeout]"
proof -
  let ?s0 = "s\<lparr>trace := trace s @ [SendSignals sigs timeout]\<rparr>"
  from assms have "steady ?s0 s'"
    using normally_cast [of off cv cfg sigs timeout] normally_test [of off cv cfg sigs]
      normally_punch [of off cv cfg sigs]
    by (auto simp add: send_signals_def Let_def raise_def normally_def
        split: option.splits if_splits)
  then show "working_led s' = working_led s" and "error_led s' = error_led s"
    and "sends s' = sends s @ [SendSignals sigs timeout]"
    by (simp_all add: steady_def sends_def)
qed
lemma pump_stop_loop_normal:
  assumes send: "\<And>s v s'. send s = Some (Inr v, s') \<Longrightarrow>
      working_led s' = working_led s \<and> error_led s' = error_led s \<and> sends s' = sends s @ [e]"
    and loop: "pump_stop_loop n send s = Some (Inr v, s')"
  shows "\<not> pump s' \<and> working_led s' = working_led s \<and> error_led s' = error_led s
         \<and> (\<exists>k. sends s' = sends s @ replicate (2 * k) e \<and> (pump s \<longrightarrow> 1 \<le> k))"
  using loop
proof (induction n arbitrary: s)
  case 0
  then have "\<not> pump s" and "s' = s"
    by (auto simp add: return_def split: if_splits)
  then have "sends s' = sends s @ replicate (2 * 0) e \<and> (pump s \<longrightarrow> 1 \<le> (0::nat))"
    by simp
  with \<open>\<not> pump s\<close> \<open>s' = s\<close> show ?case by blast
next
  case (Suc n)
  show ?case
  proof (cases "pump s")
    case False
    with Suc.prems have "s' = s"
      by (simp add: return_def)
    with False have "sends s' = sends s @ replicate (2 * 0) e \<and> (pump s \<longrightarrow> 1 \<le> (0::nat))"
      by simp
    with False \<open>s' = s\<close> show ?thesis by blast
  next
    case True
    with Suc.prems
    have "seq send (\<lambda>_. seq send (\<lambda>_. pump_stop_loop n send)) s = Some (Inr v, s')"
      by simp
    then obtain u1 s1 where first: "send s = Some (Inr u1, s1)"
      and "seq send (\<lambda>_. pump_stop_loop n send) s1 = Some (Inr v, s')"
      by (rule seq_normalE)
    then obtain u2 s2 where second: "send s1 = Some (Inr u2, s2)"
      and rest: "pump_stop_loop n send s2 = Some (Inr v, s')"
      by (auto elim: seq_normalE)
    from send [OF first] send [OF second]
    have leds: "working_led s2 = working_led s" "error_led s2 = error_led s"
      and sent: "sends s2 = sends s @ [e, e]"
      by simp_all
    from Suc.IH [OF rest] obtain k where "\<not> pump s'"
      and "working_led s' = working_led s2" and "error_led s' = error_led s2"
      and "sends s' = sends s2 @ replicate (2 * k) e"
      by blast
    with leds sent have "\<not> pump s'" and "working_led s' = working_led s"
      and "error_led s' = error_led s"
      and "sends s' = sends s @ replicate (2 * Suc k) e \<and> (pump s \<longrightarrow> 1 \<le> Suc k)"
      by simp_all
    then show ?thesis by blast
  qed
qed

lemma pump_control_off_normal:
  "(\<not> pump s \<longrightarrow> pump_control off n cv cfg (Some False) s = Some (Inr False, s))
   \<and> (pump s \<and> pump_control off n cv cfg (Some False) s = Some (Inr v, s') \<longrightarrow>
        \<not> v \<and> \<not> pump s' \<and> \<not> error_led s' \<and> working_led s' = working_led s
        \<and> (\<exists>k\<ge>1. sends s' = sends s @ replicate (2 * k)
               (SendSignals [''N'', ''J'', ''S'', ''0005'', str (wedge_0005 s)]
                  (Some (pump_stop_timeout cfg)))))"
proof (rule conjI)
  show "\<not> pump s \<longrightarrow> pump_control off n cv cfg (Some False) s = Some (Inr False, s)"
    by (simp add: pump_control_def pump_control_stop_def seq_def return_def)
next
  let ?e = "SendSignals [''N'', ''J'', ''S'', ''0005'', str (wedge_0005 s)]
              (Some (pump_stop_timeout cfg))"
  let ?s2 = "(if working_led s then s\<lparr>working_led := False\<rparr> else s)\<lparr>error_led := True\<rparr>"
  let ?send = "send_signals off cv cfg [''N'', ''J'', ''S'', ''0005'', str (wedge_0005 s)]
                 (Some (pump_stop_timeout cfg))"
  {
  assume "pump s \<and> pump_control off n cv cfg (Some False) s = Some (Inr v, s')"
  then have on: "pump s" and returned: "pump_control off n cv cfg (Some False) s = Some (Inr v, s')"
    by simp_all
  from returned on obtain s3 where
    loop: "pump_stop_loop n ?send ?s2 = Some (Inr (), s3)"
    and s': "s' = (if working_led s then s3\<lparr>error_led := False, working_led := True\<rparr>
                   else s3\<lparr>error_led := False\<rparr>)"
    and v: "v = pump s'"
    by (auto simp add: pump_control_def pump_control_stop_def Let_def return_def
        elim!: seq_normalE split: if_splits)
  have "\<not> pump s3 \<and> working_led s3 = working_led ?s2 \<and> error_led s3 = error_led ?s2
         \<and> (\<exists>k. sends s3 = sends ?s2 @ replicate (2 * k) ?e \<and> (pump ?s2 \<longrightarrow> 1 \<le> k))"
    using loop by (rule pump_stop_loop_normal [rotated]) (simp add: send_signals_normal)
  then obtain k where off3: "\<not> pump s3" and led3: "working_led s3 = working_led ?s2"
    and "sends s3 = sends ?s2 @ replicate (2 * k) ?e" and "pump ?s2 \<longrightarrow> 1 \<le> k"
    by blast
  with on have k: "1 \<le> k" and sent: "sends s3 = sends s @ replicate (2 * k) ?e"
    by (simp_all add: sends_def)
  from s' sent have "sends s' = sends s @ replicate (2 * k) ?e"
    by (simp add: sends_def)
  with k have "\<exists>k\<ge>1. sends s' = sends s @ replicate (2 * k) ?e"
    by blast
  moreover from s' off3 led3 v have "\<not> v" "\<not> pump s'" "\<not> error_led s'" "working_led s' = working_led s"
    by (simp_all split: if_splits)
  ultimately have "\<not> v \<and> \<not> pump s' \<and> \<not> error_led s' \<and> working_led s' = working_led s
        \<and> (\<exists>k\<ge>1. sends s' = sends s @ replicate (2 * k) ?e)"
    by blast
  }
  then show "pump s \<and> pump_control off n cv cfg (Some False) s = Some (Inr v, s') \<longrightarrow>
        \<not> v \<and> \<not> pump s' \<and> \<not> error_led s' \<and> working_led s' = working_led s
        \<and> (\<exists>k\<ge>1. sends s' = sends s @ replicate (2 * k) ?e)"
    by (rule impI)
qed

subsection \<open>Stopping the pump\<close>

lemma pump_control_off_not_working:
  assumes "pump s" and "\<not> working s"
  shows "pump_control off (Suc n) cv cfg (Some False) s =
           Some (Inl InterfaceNotStarted,
             (if working_led s then s\<lparr>working_led := False\<rparr> else s)
               \<lparr>error_led := True,
                trace := trace s @ [SendSignals [''N'', ''J'', ''S'', ''0005'', str (wedge_0005 s)]
                                     (Some (pump_stop_timeout cfg))]\<rparr>)"
    and "pump_control off 0 cv cfg (Some False) s = None"
  using assms
  by (simp_all add: pump_control_def pump_control_stop_def send_signals_def seq_def raise_def
      Let_def)

text \<open>
  C4 does not hold as stated. \<^verbatim>\<open>valves_control\<close> works on an interface that was never
  started: two calls with the signal 0075 leave the pump inferred on. \<^verbatim>\<open>pump_control(OFF)\<close>
  then enters \<^verbatim>\<open>send_signals\<close> once, with the stop combination, and that call raises
  \<^verbatim>\<open>InterfaceNotStarted\<close>: the combination is not sent twice, and the pump stays on.
\<close>

theorem pump_control_off_on_idle_interface:
  "seq (valves_control (machine_control_off 1 no_row16 (defaults (Some ''punching'')))
          (defaults (Some ''punching'')) (Signals {''0075''})) (\<lambda>_.
   seq (valves_control (machine_control_off 1 no_row16 (defaults (Some ''punching'')))
          (defaults (Some ''punching'')) (Signals {''0075''})) (\<lambda>_.
   pump_control (machine_control_off 1 no_row16 (defaults (Some ''punching''))) 1 no_row16
          (defaults (Some ''punching'')) (Some False))) (init [] [])
   = Some (Inl InterfaceNotStarted,
       (init [] [])\<lparr>pump := True, signals := [''0075''], error_led := True,
         trace := [ValvesOn {''0075''}, ValvesOn {''0075''},
                   SendSignals [''N'', ''J'', ''S'', ''0005'', ''15''] (Some 120)]\<rparr>)"
  by (simp add: exec pump_control_def pump_control_stop_def init_def defaults_def)

text \<open>
  C4, as the code has it. \<^verbatim>\<open>pump_control(OFF)\<close> with the pump off returns at once and touches
  nothing. With the pump on, a call that returns normally was made on a working interface
  and has sent the stop combination N J S 0005 and the 0005 wedge position, with
  \<^verbatim>\<open>pump_stop_timeout\<close>, twice for each round of its loop and at least twice; the pump is
  then off, the error LED is off and the working LED is as it was before the call. With the
  pump on and the interface not working, the first \<^verbatim>\<open>send_signals\<close> raises
  \<^verbatim>\<open>InterfaceNotStarted\<close> and the pump stays on.
\<close>

theorem pump_control_off_stops_pump:
  "(\<not> pump s \<longrightarrow> pump_control off n cv cfg (Some False) s = Some (Inr False, s))
   \<and> (pump s \<and> pump_control off n cv cfg (Some False) s = Some (Inr v, s') \<longrightarrow>
        working s \<and> \<not> v \<and> \<not> pump s' \<and> \<not> error_led s' \<and> working_led s' = working_led s
        \<and> (\<exists>k\<ge>1. sends s' = sends s @ replicate (2 * k)
               (SendSignals [''N'', ''J'', ''S'', ''0005'', str (wedge_0005 s)]
                  (Some (pump_stop_timeout cfg)))))
   \<and> (pump s \<and> \<not> working s \<and> 0 < n \<longrightarrow>
        (\<exists>s'. pump_control off n cv cfg (Some False) s = Some (Inl InterfaceNotStarted, s')
           \<and> pump s'
           \<and> sends s' = sends s @
               [SendSignals [''N'', ''J'', ''S'', ''0005'', str (wedge_0005 s)]
                  (Some (pump_stop_timeout cfg))]))"
proof -
  have idle: "\<not> pump s \<longrightarrow> pump_control off n cv cfg (Some False) s = Some (Inr False, s)"
    using pump_control_off_normal [of s off n cv cfg] by blast
  have started: "working s"
    if "pump s" and "pump_control off n cv cfg (Some False) s = Some (Inr v, s')"
  proof (rule ccontr)
    assume "\<not> working s"
    with that show False
      by (cases n) (simp_all add: pump_control_off_not_working)
  qed
  have normal: "pump s \<and> pump_control off n cv cfg (Some False) s = Some (Inr v, s') \<longrightarrow>
        working s \<and> \<not> v \<and> \<not> pump s' \<and> \<not> error_led s' \<and> working_led s' = working_led s
        \<and> (\<exists>k\<ge>1. sends s' = sends s @ replicate (2 * k)
               (SendSignals [''N'', ''J'', ''S'', ''0005'', str (wedge_0005 s)]
                  (Some (pump_stop_timeout cfg))))"
    using pump_control_off_normal [of s off n cv cfg v s'] started by blast
  have refused: "pump s \<and> \<not> working s \<and> 0 < n \<longrightarrow>
        (\<exists>s'. pump_control off n cv cfg (Some False) s = Some (Inl InterfaceNotStarted, s')
           \<and> pump s'
           \<and> sends s' = sends s @
               [SendSignals [''N'', ''J'', ''S'', ''0005'', str (wedge_0005 s)]
                  (Some (pump_stop_timeout cfg))])"
  proof
    assume "pump s \<and> \<not> working s \<and> 0 < n"
    then obtain m where "pump s" and "\<not> working s" and "n = Suc m"
      by (cases n) simp_all
    then show "\<exists>s'. pump_control off n cv cfg (Some False) s = Some (Inl InterfaceNotStarted, s')
           \<and> pump s'
           \<and> sends s' = sends s @
               [SendSignals [''N'', ''J'', ''S'', ''0005'', str (wedge_0005 s)]
                  (Some (pump_stop_timeout cfg))]"
      by (simp add: pump_control_off_not_working(1) sends_def)
  qed
  show ?thesis
    by (intro conjI) (fact idle, fact normal, fact refused)
qed

lemma pump_running_stopped:
  "pump_control (machine_control_off 1 no_row16 (defaults (Some ''punching''))) 1 no_row16
       (defaults (Some ''punching'')) (Some False) pump_running
     = Some (Inr False,
         pump_running\<lparr>pump := False, signals := [''N'', ''J'', ''S'', ''8'', ''0005''],
           clock := 250,
           trace := trace pump_running @
             [SendSignals [''N'', ''J'', ''S'', ''0005'', ''8''] (Some 120),
              ValvesOn {''N'', ''J'', ''S'', ''0005'', ''8''}, Sleep (1 / 5), ValvesOff,
              Sleep (3 / 10),
              SendSignals [''N'', ''J'', ''S'', ''0005'', ''8''] (Some 120),
              ValvesOn {''N'', ''J'', ''S'', ''0005'', ''8''}, Sleep (1 / 5), ValvesOff,
              Sleep (3 / 10)]\<rparr>)"
  by (simp add: exec pump_control_def pump_control_stop_def pump_running_def started_def
      init_def defaults_def)

theorem pump_control_off_stops_pump_witness:
  "\<not> pump started
   \<and> pump_control (machine_control_off 1 no_row16 (defaults (Some ''punching''))) 1 no_row16
       (defaults (Some ''punching'')) (Some False) started = Some (Inr False, started)
   \<and> pump pump_running
   \<and> pump_control (machine_control_off 1 no_row16 (defaults (Some ''punching''))) 1 no_row16
       (defaults (Some ''punching'')) (Some False) pump_running
     = Some (Inr False,
         pump_running\<lparr>pump := False, signals := [''N'', ''J'', ''S'', ''8'', ''0005''],
           clock := 250,
           trace := trace pump_running @
             [SendSignals [''N'', ''J'', ''S'', ''0005'', ''8''] (Some 120),
              ValvesOn {''N'', ''J'', ''S'', ''0005'', ''8''}, Sleep (1 / 5), ValvesOff,
              Sleep (3 / 10),
              SendSignals [''N'', ''J'', ''S'', ''0005'', ''8''] (Some 120),
              ValvesOn {''N'', ''J'', ''S'', ''0005'', ''8''}, Sleep (1 / 5), ValvesOff,
              Sleep (3 / 10)]\<rparr>)
   \<and> working pump_running
   \<and> (\<exists>k\<ge>1. sends (pump_running\<lparr>pump := False,
           signals := [''N'', ''J'', ''S'', ''8'', ''0005''], clock := 250,
           trace := trace pump_running @
             [SendSignals [''N'', ''J'', ''S'', ''0005'', ''8''] (Some 120),
              ValvesOn {''N'', ''J'', ''S'', ''0005'', ''8''}, Sleep (1 / 5), ValvesOff,
              Sleep (3 / 10),
              SendSignals [''N'', ''J'', ''S'', ''0005'', ''8''] (Some 120),
              ValvesOn {''N'', ''J'', ''S'', ''0005'', ''8''}, Sleep (1 / 5), ValvesOff,
              Sleep (3 / 10)]\<rparr>)
         = sends pump_running @ replicate (2 * k)
             (SendSignals [''N'', ''J'', ''S'', ''0005'', str (wedge_0005 pump_running)]
                (Some (pump_stop_timeout (defaults (Some ''punching''))))))
   \<and> pump ((init [] [])\<lparr>pump := True\<rparr>) \<and> \<not> working ((init [] [])\<lparr>pump := True\<rparr>)
   \<and> (0::nat) < 1
   \<and> (\<exists>s'. pump_control (machine_control_off 1 no_row16 (defaults (Some ''punching''))) 1
              no_row16 (defaults (Some ''punching'')) (Some False) ((init [] [])\<lparr>pump := True\<rparr>)
            = Some (Inl InterfaceNotStarted, s') \<and> pump s')"
proof -
  let ?off = "machine_control_off 1 no_row16 (defaults (Some ''punching''))"
  let ?after = "pump_running\<lparr>pump := False, signals := [''N'', ''J'', ''S'', ''8'', ''0005''],
           clock := 250,
           trace := trace pump_running @
             [SendSignals [''N'', ''J'', ''S'', ''0005'', ''8''] (Some 120),
              ValvesOn {''N'', ''J'', ''S'', ''0005'', ''8''}, Sleep (1 / 5), ValvesOff,
              Sleep (3 / 10),
              SendSignals [''N'', ''J'', ''S'', ''0005'', ''8''] (Some 120),
              ValvesOn {''N'', ''J'', ''S'', ''0005'', ''8''}, Sleep (1 / 5), ValvesOff,
              Sleep (3 / 10)]\<rparr>"
  have rest: "\<not> pump started"
    by (simp add: started_def init_def)
  have on: "pump pump_running"
    by (simp add: pump_running_def)
  have idle: "pump ((init [] [])\<lparr>pump := True\<rparr>) \<and> \<not> working ((init [] [])\<lparr>pump := True\<rparr>)
                \<and> (0::nat) < 1"
    by (simp add: init_def)
  from pump_control_off_stops_pump [of started ?off 1 no_row16 "defaults (Some ''punching'')"]
       pump_control_off_stops_pump
         [of pump_running ?off 1 no_row16 "defaults (Some ''punching'')" False ?after]
       pump_control_off_stops_pump
         [of "(init [] [])\<lparr>pump := True\<rparr>" ?off 1 no_row16 "defaults (Some ''punching'')"]
       rest on idle pump_running_stopped
  show ?thesis by blast
qed

subsection \<open>Stopping the machine\<close>

lemma valves_control_off_normal:
  assumes "valves_control off cfg Off s = Some (Inr v, s')"
  shows "s' = valves_off s"
  using assms unfolding valves_control_def
  by (auto dest!: handle_machine_stop_normal(1) simp add: return_def Let_def)

lemma air_control_off_normal:
  assumes "air_control off (Some False) s = Some (Inr v, s')"
  shows "s' = s\<lparr>air_gpio := False, air := False\<rparr>"
  using assms unfolding air_control_def
  by (auto dest!: handle_machine_stop_normal(1) simp add: return_def)

lemma water_control_off_normal:
  assumes "water_control off (Some False) s = Some (Inr v, s')"
  shows "s' = s\<lparr>water_gpio := False, water := False\<rparr>"
  using assms unfolding water_control_def
  by (auto dest!: handle_machine_stop_normal(1) simp add: return_def)

lemma motor_control_off_normal:
  assumes "motor_control off (Some False) s = Some (Inr v, s')"
  shows "pump s' = pump s \<and> signals s' = signals s"
  using assms unfolding motor_control_def
  by (auto dest!: handle_machine_stop_normal(1) simp add: return_def Let_def)

lemma pump_control_off_pump:
  "pump_control off n cv cfg (Some False) s = Some (Inr v, s') \<Longrightarrow> \<not> pump s'"
  using pump_control_off_normal [of s off n cv cfg v s'] by (cases "pump s") auto

lemma machine_control_stop_normal:
  assumes "working s" and "machine_control_stop off n cv cfg s = Some (Inr v, s')"
  shows "\<not> working s' \<and> \<not> pump s' \<and> \<not> air s' \<and> signals s' = []"
proof -
  from assms obtain u1 s1 where
    pump: "pump_control off n cv cfg (Some False) s = Some (Inr u1, s1)"
    and rest1: "seq (valves_control off cfg Off) (\<lambda>_.
           seq (\<lambda>s. return () (s\<lparr>signals := []\<rparr>)) (\<lambda>_.
           seq (\<lambda>s. if operation_mode cfg s = Some ''casting''
                    then seq (motor_control off (Some False)) (\<lambda>_.
                         seq (water_control off (Some False)) (\<lambda>_.
                         return ())) s
                    else return () s) (\<lambda>_.
           seq (air_control off (Some False)) (\<lambda>_ s.
           return () (s\<lparr>working_led := False, working := False\<rparr>))))) s1 = Some (Inr v, s')"
    unfolding machine_control_stop_def by (auto elim: seq_normalE)
  from pump have off1: "\<not> pump s1" by (rule pump_control_off_pump)
  from rest1 obtain u2 s2 where
    valves: "valves_control off cfg Off s1 = Some (Inr u2, s2)"
    and rest2: "seq (\<lambda>s. return () (s\<lparr>signals := []\<rparr>)) (\<lambda>_.
           seq (\<lambda>s. if operation_mode cfg s = Some ''casting''
                    then seq (motor_control off (Some False)) (\<lambda>_.
                         seq (water_control off (Some False)) (\<lambda>_.
                         return ())) s
                    else return () s) (\<lambda>_.
           seq (air_control off (Some False)) (\<lambda>_ s.
           return () (s\<lparr>working_led := False, working := False\<rparr>)))) s2 = Some (Inr v, s')"
    by (rule seq_normalE)
  from valves off1 have off2: "\<not> pump s2"
    by (auto dest: valves_control_off_normal simp add: valves_off_def)
  from rest2 obtain u3 s3 where
    clear: "return () (s2\<lparr>signals := []\<rparr>) = Some (Inr u3, s3)"
    and rest3: "seq (\<lambda>s. if operation_mode cfg s = Some ''casting''
                    then seq (motor_control off (Some False)) (\<lambda>_.
                         seq (water_control off (Some False)) (\<lambda>_.
                         return ())) s
                    else return () s) (\<lambda>_.
           seq (air_control off (Some False)) (\<lambda>_ s.
           return () (s\<lparr>working_led := False, working := False\<rparr>))) s3 = Some (Inr v, s')"
    by (rule seq_normalE)
  from clear off2 have s3: "\<not> pump s3 \<and> signals s3 = []"
    by (auto simp add: return_def)
  from rest3 obtain u4 s4 where
    casting: "(if operation_mode cfg s3 = Some ''casting''
                    then seq (motor_control off (Some False)) (\<lambda>_.
                         seq (water_control off (Some False)) (\<lambda>_.
                         return ())) s3
                    else return () s3) = Some (Inr u4, s4)"
    and rest4: "seq (air_control off (Some False)) (\<lambda>_ s.
           return () (s\<lparr>working_led := False, working := False\<rparr>)) s4 = Some (Inr v, s')"
    by (rule seq_normalE)
  have s4: "\<not> pump s4 \<and> signals s4 = []"
  proof (cases "operation_mode cfg s3 = Some ''casting''")
    case False
    with casting s3 show ?thesis by (simp add: return_def)
  next
    case True
    with casting have "seq (motor_control off (Some False)) (\<lambda>_.
                         seq (water_control off (Some False)) (\<lambda>_.
                         return ())) s3 = Some (Inr u4, s4)"
      by simp
    then obtain um sm where motor: "motor_control off (Some False) s3 = Some (Inr um, sm)"
      and "seq (water_control off (Some False)) (\<lambda>_. return ()) sm = Some (Inr u4, s4)"
      by (rule seq_normalE)
    then obtain uw sw where water: "water_control off (Some False) sm = Some (Inr uw, sw)"
      and "return () sw = Some (Inr u4, s4)"
      by (auto elim: seq_normalE)
    then have "s4 = sm\<lparr>water_gpio := False, water := False\<rparr>"
      by (auto dest: water_control_off_normal simp add: return_def)
    with motor_control_off_normal [OF motor] s3 show ?thesis
      by simp
  qed
  from rest4 obtain u5 s5 where air: "air_control off (Some False) s4 = Some (Inr u5, s5)"
    and "return () (s5\<lparr>working_led := False, working := False\<rparr>) = Some (Inr v, s')"
    by (rule seq_normalE)
  then have "s' = s5\<lparr>working_led := False, working := False\<rparr>"
    by (simp add: return_def)
  with air_control_off_normal [OF air] s4 show ?thesis
    by simp
qed

lemma machine_control_off_normal:
  "(\<not> working s \<longrightarrow> machine_control n cv cfg (Some False) s = Some (Inr False, s))
   \<and> (working s \<and> machine_control n cv cfg (Some False) s = Some (Inr v, s') \<longrightarrow>
        \<not> v \<and> \<not> working s' \<and> \<not> pump s' \<and> \<not> air s' \<and> signals s' = [])"
proof (rule conjI)
  show "\<not> working s \<longrightarrow> machine_control n cv cfg (Some False) s = Some (Inr False, s)"
    by (simp add: machine_control_def machine_control_stop_def seq_def return_def)
next
  {
    assume "working s \<and> machine_control n cv cfg (Some False) s = Some (Inr v, s')"
    then have on: "working s"
      and "seq (machine_control_stop (\<lambda>s'. machine_control_off n cv cfg s') n cv cfg)
             (\<lambda>_ s'. return (working s') s') s = Some (Inr v, s')"
      by (simp_all add: machine_control_def)
    then obtain u where
      stop: "machine_control_stop (\<lambda>s'. machine_control_off n cv cfg s') n cv cfg s
               = Some (Inr u, s')"
      and v: "v = working s'"
      by (auto elim!: seq_normalE simp add: return_def)
    from machine_control_stop_normal [OF on stop] v
    have "\<not> v \<and> \<not> working s' \<and> \<not> pump s' \<and> \<not> air s' \<and> signals s' = []"
      by simp
  }
  then show "working s \<and> machine_control n cv cfg (Some False) s = Some (Inr v, s') \<longrightarrow>
        \<not> v \<and> \<not> working s' \<and> \<not> pump s' \<and> \<not> air s' \<and> signals s' = []"
    by (rule impI)
qed

text \<open>
  C7 does not hold as stated. \<^verbatim>\<open>valves_control\<close> does not ask whether the interface is
  working: two calls with the signal 0075 on a new interface leave the pump inferred on
  and the signals stored, and \<^verbatim>\<open>machine_control(OFF)\<close> then returns \<^verbatim>\<open>False\<close> at once, with
  the pump still on and the signals still there.
\<close>

theorem machine_control_off_on_idle_interface:
  "seq (valves_control (machine_control_off 1 no_row16 (defaults (Some ''punching'')))
          (defaults (Some ''punching'')) (Signals {''0075''})) (\<lambda>_.
   seq (valves_control (machine_control_off 1 no_row16 (defaults (Some ''punching'')))
          (defaults (Some ''punching'')) (Signals {''0075''})) (\<lambda>_.
   machine_control 1 no_row16 (defaults (Some ''punching'')) (Some False))) (init [] [])
   = Some (Inr False,
       (init [] [])\<lparr>pump := True, signals := [''0075''],
                     trace := [ValvesOn {''0075''}, ValvesOn {''0075''}]\<rparr>)"
  by (simp add: exec machine_control_def machine_control_stop_def init_def defaults_def)

lemma machine_control_off_unfold:
  "machine_control n cv cfg (Some False) s =
     seq (machine_control_stop (machine_control_off n cv cfg) n cv cfg)
       (\<lambda>_ s'. return (working s') s') s"
  by (simp add: machine_control_def)

text \<open>
  C7, as the code has it. \<^verbatim>\<open>machine_control(OFF)\<close> on an interface that is not working
  returns \<^verbatim>\<open>False\<close> and changes nothing. On a working interface, a call that returns
  leaves it not working, with the pump off, the air off and no signals.
\<close>

theorem machine_control_off_releases:
  "(\<not> working s \<longrightarrow> machine_control n cv cfg (Some False) s = Some (Inr False, s))
   \<and> (working s \<and> machine_control n cv cfg (Some False) s = Some (Inr v, s') \<longrightarrow>
        \<not> v \<and> \<not> working s' \<and> \<not> pump s' \<and> \<not> air s' \<and> signals s' = [])"
  by (rule machine_control_off_normal)

theorem machine_control_off_releases_witness:
  "\<not> working (init [] [])
   \<and> machine_control 1 no_row16 (defaults (Some ''punching'')) (Some False) (init [] [])
       = Some (Inr False, init [] [])
   \<and> working started
   \<and> machine_control 1 no_row16 (defaults (Some ''punching'')) (Some False) started
       = Some (Inr False, (init [] [])\<lparr>trace := [ValvesOff]\<rparr>)
   \<and> \<not> air ((init [] [])\<lparr>trace := [ValvesOff]\<rparr>)"
proof -
  have idle: "\<not> working (init [] [])"
    by (simp add: init_def)
  have on: "working started"
    by (simp add: started_def)
  have "pump_control (\<lambda>s'. machine_control_off 1 no_row16 (defaults (Some ''punching'')) s') 1
          no_row16 (defaults (Some ''punching'')) (Some False) started = Some (Inr False, started)"
    using pump_control_off_normal [of started] by (simp add: started_def init_def)
  then have run: "machine_control 1 no_row16 (defaults (Some ''punching'')) (Some False) started
       = Some (Inr False, (init [] [])\<lparr>trace := [ValvesOff]\<rparr>)"
    by (simp add: machine_control_off_unfold machine_control_stop_def seq_def return_def
        valves_control_def air_control_def handle_machine_stop_def check_emergency_stop_def
        valves_off_def operation_mode_def started_def init_def defaults_def Let_def
        del: One_nat_def)
  from machine_control_off_releases [of "init [] []" 1 no_row16 "defaults (Some ''punching'')"]
       machine_control_off_releases [of started 1 no_row16 "defaults (Some ''punching'')" False]
       idle on run
  show ?thesis by (simp add: init_def)
qed

subsection \<open>The wedge positions\<close>

lemma earliest_row_range: "earliest_row ps sigs \<in> insert 15 (set ps)"
  by (induction ps) auto

lemma earliest_row_bounds:
  "1 \<le> earliest_row [1..14] sigs \<and> earliest_row [1..14] sigs \<le> 15"
  using earliest_row_range [of "[1..14]" sigs] by auto

lemma earliest_row_sorted:
  assumes "sorted ps"
  shows "earliest_row ps sigs =
           (if \<exists>pos\<in>set ps. str pos \<in> set sigs
            then Min {pos \<in> set ps. str pos \<in> set sigs}
            else 15)"
  using assms
proof (induction ps)
  case Nil
  then show ?case by simp
next
  case (Cons p ps)
  show ?case
  proof (cases "str p \<in> set sigs")
    case True
    have "Min {pos \<in> set (p # ps). str pos \<in> set sigs} = p"
    proof (rule Min_eqI)
      show "finite {pos \<in> set (p # ps). str pos \<in> set sigs}" by simp
      show "p \<in> {pos \<in> set (p # ps). str pos \<in> set sigs}" using True by simp
      fix q assume "q \<in> {pos \<in> set (p # ps). str pos \<in> set sigs}"
      with Cons.prems show "p \<le> q" by auto
    qed
    with True show ?thesis by auto
  next
    case False
    then have "{pos \<in> set (p # ps). str pos \<in> set sigs} = {pos \<in> set ps. str pos \<in> set sigs}"
      by auto
    with False Cons show ?thesis by auto
  qed
qed

lemma earliest_row_smallest: "earliest_row [1..14] sigs = smallest_row sigs"
  by (simp add: earliest_row_sorted smallest_row_def)

lemma wedges_update_pump_and_wedges:
  "wedges_in_range s \<Longrightarrow> wedges_in_range (update_pump_and_wedges s)"
  using earliest_row_bounds
  by (simp add: wedges_in_range_def update_pump_and_wedges_def Let_def found_def)

lemma wedge_0075_update:
  "wedge_0075 (update_pump_and_wedges s) =
     (if found [''0075''] s \<or> found [''N'', ''K''] s then smallest_row (signals s)
      else wedge_0075 s)"
  by (auto simp add: update_pump_and_wedges_def Let_def found_def earliest_row_smallest)

lemma wedge_0005_update:
  "wedge_0005 (update_pump_and_wedges s) =
     (if found [''0005''] s \<or> found [''N'', ''J''] s then smallest_row (signals s)
      else wedge_0005 s)"
  by (auto simp add: update_pump_and_wedges_def Let_def found_def earliest_row_smallest)

lemma wedges_other_fields [simp]:
  "wedges_in_range (s\<lparr>signals := sigs\<rparr>) = wedges_in_range s"
  "wedges_in_range (s\<lparr>trace := events\<rparr>) = wedges_in_range s"
  "wedges_in_range (s\<lparr>pump := b\<rparr>) = wedges_in_range s"
  "wedges_in_range (s\<lparr>air := b\<rparr>) = wedges_in_range s"
  "wedges_in_range (s\<lparr>water := b\<rparr>) = wedges_in_range s"
  "wedges_in_range (s\<lparr>motor := b\<rparr>) = wedges_in_range s"
  "wedges_in_range (s\<lparr>working := b\<rparr>) = wedges_in_range s"
  "wedges_in_range (s\<lparr>meter_events := stamps\<rparr>) = wedges_in_range s"
  "wedges_in_range (s\<lparr>air_gpio := b\<rparr>) = wedges_in_range s"
  "wedges_in_range (s\<lparr>water_gpio := b\<rparr>) = wedges_in_range s"
  "wedges_in_range (s\<lparr>motor_start_gpio := b\<rparr>) = wedges_in_range s"
  "wedges_in_range (s\<lparr>motor_stop_gpio := b\<rparr>) = wedges_in_range s"
  "wedges_in_range (s\<lparr>working_led := b\<rparr>) = wedges_in_range s"
  "wedges_in_range (s\<lparr>error_led := b\<rparr>) = wedges_in_range s"
  "wedges_in_range (s\<lparr>operation_mode_attr := attr\<rparr>) = wedges_in_range s"
  "wedges_in_range (s\<lparr>row16_mode_attr := attr\<rparr>) = wedges_in_range s"
  "wedges_in_range (s\<lparr>emergency_stop_event := b\<rparr>) = wedges_in_range s"
  by (simp_all add: wedges_in_range_def)

lemma wedges_tick [simp]: "wedges_in_range (tick s) = wedges_in_range s"
  by (simp add: wedges_in_range_def)

lemma wedges_sleep [simp]: "wedges_in_range (sleep d s) = wedges_in_range s"
  by (simp add: wedges_in_range_def)

lemma wedges_sleeps: "wedges_in_range ((sleep d ^^ k) s) = wedges_in_range s"
  by (induction k) simp_all

lemma keepsI:
  "(\<And>s r s'. wedges_in_range s \<Longrightarrow> m s = Some (r, s') \<Longrightarrow> wedges_in_range s') \<Longrightarrow> keeps m"
  unfolding keeps_def by blast

lemma keepsD: "keeps m \<Longrightarrow> wedges_in_range s \<Longrightarrow> m s = Some (r, s') \<Longrightarrow> wedges_in_range s'"
  unfolding keeps_def by blast

lemma keeps_return: "keeps (return v)"
  by (rule keepsI) (simp add: return_def)

lemma keeps_raise: "keeps (raise e)"
  by (rule keepsI) (simp add: raise_def)

lemma keeps_seq:
  assumes "keeps m" and "\<And>u. keeps (f u)"
  shows "keeps (seq m f)"
proof (rule keepsI)
  fix s r s'
  assume ok: "wedges_in_range s" and run: "seq m f s = Some (r, s')"
  from run obtain r1 s1 where first: "m s = Some (r1, s1)"
    by (cases "m s") (auto simp add: seq_def)
  from assms(1) ok first have ok1: "wedges_in_range s1"
    by (rule keepsD)
  show "wedges_in_range s'"
  proof (cases r1)
    case (Inl e)
    with run first have "s' = s1" by (simp add: seq_def)
    with ok1 show ?thesis by simp
  next
    case (Inr u)
    with run first have "f u s1 = Some (r, s')" by (simp add: seq_def)
    with assms(2) ok1 show ?thesis by (rule keepsD)
  qed
qed

lemma keeps_step:
  assumes "\<And>s. wedges_in_range s \<Longrightarrow> wedges_in_range (g s)"
  shows "keeps (\<lambda>s. return (v s) (g s))"
proof (rule keepsI)
  fix s r s'
  assume ok: "wedges_in_range s" and "return (v s) (g s) = Some (r, s')"
  then have "s' = g s" by (simp add: return_def)
  with assms [OF ok] show "wedges_in_range s'" by simp
qed

lemma keeps_if:
  assumes "keeps m" and "keeps m'"
  shows "keeps (\<lambda>s. if c s then m s else m' s)"
proof (rule keepsI)
  fix s r s'
  assume ok: "wedges_in_range s" and run: "(if c s then m s else m' s) = Some (r, s')"
  show "wedges_in_range s'"
  proof (cases "c s")
    case True
    with run have "m s = Some (r, s')" by simp
    with assms(1) ok show ?thesis by (rule keepsD)
  next
    case False
    with run have "m' s = Some (r, s')" by simp
    with assms(2) ok show ?thesis by (rule keepsD)
  qed
qed

lemma keeps_check_emergency_stop: "keeps check_emergency_stop"
  by (rule keepsI) (auto simp add: check_emergency_stop_def return_def raise_def split: if_splits)

lemma keeps_handle_machine_stop:
  assumes "keeps off" and "keeps routine"
  shows "keeps (handle_machine_stop off routine)"
proof (rule keepsI)
  let ?guarded = "seq check_emergency_stop
                    (\<lambda>_. seq routine (\<lambda>retval. seq check_emergency_stop (\<lambda>_. return retval)))"
  have guarded: "keeps ?guarded"
    by (intro keeps_seq keeps_check_emergency_stop assms keeps_return)
  have handler: "keeps (seq off (\<lambda>_. raise MachineStopped))"
    by (intro keeps_seq assms keeps_raise)
  fix s r s'
  assume ok: "wedges_in_range s" and run: "handle_machine_stop off routine s = Some (r, s')"
  from run obtain r1 s1 where first: "?guarded s = Some (r1, s1)"
    by (cases "?guarded s") (auto simp add: handle_machine_stop_def)
  from guarded ok first have ok1: "wedges_in_range s1"
    by (rule keepsD)
  show "wedges_in_range s'"
  proof (cases "r1 = Inl MachineStopped")
    case True
    with run first have "seq off (\<lambda>_. raise MachineStopped) s1 = Some (r, s')"
      by (simp add: handle_machine_stop_def)
    with handler ok1 show ?thesis by (rule keepsD)
  next
    case False
    with run first have "s' = s1"
      by (cases r1) (auto simp add: handle_machine_stop_def split: if_splits)
    with ok1 show ?thesis by simp
  qed
qed

lemma keeps_wait_loop: "keeps (wait_loop start_time timeout new_state)"
proof (rule keepsI)
  fix s r s'
  assume ok: "wedges_in_range s"
    and run: "wait_loop start_time timeout new_state s = Some (r, s')"
  from wait_loop_result [OF run] obtain k where "s' = (sleep (1 / 100) ^^ k) s"
    by blast
  with ok show "wedges_in_range s'"
    by (simp add: wedges_sleeps)
qed

lemma keeps_wait_for_sensor:
  assumes "keeps off"
  shows "keeps (wait_for_sensor off cfg new_state timeout)"
  unfolding wait_for_sensor_def Let_def
proof (rule keeps_handle_machine_stop [OF assms])
  show "keeps (\<lambda>s. wait_loop (time_time s) (py_or timeout (sensor_timeout cfg)) new_state s)"
    by (rule keepsI) (erule keepsD [OF keeps_wait_loop])
qed

lemma keeps_valves_control:
  assumes "keeps off"
  shows "keeps (valves_control off cfg state)"
  unfolding valves_control_def
proof (rule keeps_handle_machine_stop [OF assms])
  show "keeps (\<lambda>s. let s' = (case state of
                        Signals source \<Rightarrow>
                          if source \<noteq> {}
                          then (let s1 = valves_on source s;
                                    s2 = update_pump_and_wedges s1
                                in s2\<lparr>signals := ordered_signals cfg source\<rparr>)
                          else valves_off s
                      | Status \<Rightarrow> s
                      | Off \<Rightarrow> valves_off s)
            in return (signals s') s')"
    by (rule keepsI, cases state)
       (auto simp add: return_def Let_def valves_on_def valves_off_def
          wedges_update_pump_and_wedges split: if_splits)
qed

lemma keeps_motor_control:
  assumes "keeps off"
  shows "keeps (motor_control off state)"
  unfolding motor_control_def
proof (rule keeps_handle_machine_stop [OF assms])
  show "keeps (\<lambda>s. case state of
               None \<Rightarrow> return (motor s) s
             | Some on \<Rightarrow>
                 if on
                 then (let s1 = s\<lparr>motor_start_gpio := True\<rparr>;
                           s2 = sleep (1 / 2) s1;
                           s3 = s2\<lparr>motor_start_gpio := False\<rparr>
                       in return True (s3\<lparr>motor := True\<rparr>))
                 else (let s1 = s\<lparr>motor_stop_gpio := True\<rparr>;
                           s2 = sleep (1 / 2) s1;
                           s3 = s2\<lparr>motor_stop_gpio := False\<rparr>
                       in return False (s3\<lparr>motor := False, meter_events := []\<rparr>)))"
    by (rule keepsI, cases state) (auto simp add: return_def Let_def split: if_splits)
qed

lemma keeps_air_control:
  assumes "keeps off"
  shows "keeps (air_control off state)"
  unfolding air_control_def
proof (rule keeps_handle_machine_stop [OF assms])
  show "keeps (\<lambda>s. case state of
               None \<Rightarrow> return (air s) s
             | Some on \<Rightarrow>
                 if on then return True (s\<lparr>air_gpio := True, air := True\<rparr>)
                 else return False (s\<lparr>air_gpio := False, air := False\<rparr>))"
    by (rule keepsI, cases state) (auto simp add: return_def split: if_splits)
qed

lemma keeps_water_control:
  assumes "keeps off"
  shows "keeps (water_control off state)"
  unfolding water_control_def
proof (rule keeps_handle_machine_stop [OF assms])
  show "keeps (\<lambda>s. case state of
               None \<Rightarrow> return (water s) s
             | Some on \<Rightarrow>
                 if on then return True (s\<lparr>water_gpio := True, water := True\<rparr>)
                 else return False (s\<lparr>water_gpio := False, water := False\<rparr>))"
    by (rule keepsI, cases state) (auto simp add: return_def split: if_splits)
qed

lemma keeps_set_operation_mode: "keeps (set_operation_mode cfg mode)"
  by (rule keepsI)
     (auto simp add: set_operation_mode_def return_def raise_def split: if_splits)

lemma keeps_set_row16_mode: "keeps (set_row16_mode cfg mode)"
  by (rule keepsI)
     (auto simp add: set_row16_mode_def return_def raise_def split: if_splits)

lemma keeps_prepare_signals: "keeps (prepare_signals cv cfg input_signals)"
  by (rule keepsI)
     (auto simp add: prepare_signals_def return_def raise_def Let_def
        split: option.splits if_splits)

lemma keeps_cast: "keeps off \<Longrightarrow> keeps (cast off cv cfg input_signals timeout)"
  unfolding cast_def Let_def
  by (intro keeps_seq keeps_set_operation_mode keeps_prepare_signals keeps_wait_for_sensor
      keeps_valves_control keeps_return)

lemma keeps_test: "keeps off \<Longrightarrow> keeps (test off cv cfg input_signals)"
  unfolding test_def
  by (intro keeps_seq keeps_set_operation_mode keeps_prepare_signals keeps_valves_control
      keeps_return)

lemma keeps_sleep: "keeps (\<lambda>s. return () (sleep d s))"
  by (rule keepsI) (auto simp add: return_def)

lemma keeps_punch: "keeps off \<Longrightarrow> keeps (punch off cv cfg input_signals)"
  unfolding punch_def
  by (intro keeps_seq keeps_set_operation_mode keeps_prepare_signals keeps_valves_control
      keeps_sleep)

lemma keeps_send_signals:
  assumes "keeps off"
  shows "keeps (send_signals off cv cfg sigs timeout)"
proof (rule keepsI)
  fix s :: interface and r s'
  let ?s0 = "s\<lparr>trace := trace s @ [SendSignals sigs timeout]\<rparr>"
  assume ok: "wedges_in_range s" and run: "send_signals off cv cfg sigs timeout s = Some (r, s')"
  then have ok0: "wedges_in_range ?s0" by simp
  from run consider "s' = ?s0"
    | "test off cv cfg sigs ?s0 = Some (r, s')"
    | "cast off cv cfg sigs timeout ?s0 = Some (r, s')"
    | "punch off cv cfg sigs ?s0 = Some (r, s')"
    by (auto simp add: send_signals_def Let_def raise_def split: option.splits if_splits)
  then show "wedges_in_range s'"
  proof cases
    case 1
    with ok0 show ?thesis by simp
  next
    case 2
    with keeps_test [OF assms] ok0 show ?thesis by (rule keepsD)
  next
    case 3
    with keeps_cast [OF assms] ok0 show ?thesis by (rule keepsD)
  next
    case 4
    with keeps_punch [OF assms] ok0 show ?thesis by (rule keepsD)
  qed
qed

lemma keeps_pump_stop_loop: "keeps send \<Longrightarrow> keeps (pump_stop_loop n send)"
proof (induction n)
  case 0
  show ?case
    by (rule keepsI) (auto simp add: return_def split: if_splits)
next
  case (Suc n)
  have body: "keeps (seq send (\<lambda>_. seq send (\<lambda>_. pump_stop_loop n send)))"
    by (intro keeps_seq Suc)
  show ?case
  proof (rule keepsI)
    fix s r s'
    assume ok: "wedges_in_range s" and run: "pump_stop_loop (Suc n) send s = Some (r, s')"
    show "wedges_in_range s'"
    proof (cases "pump s")
      case True
      with run have "seq send (\<lambda>_. seq send (\<lambda>_. pump_stop_loop n send)) s = Some (r, s')"
        by simp
      with body ok show ?thesis by (rule keepsD)
    next
      case False
      with run ok show ?thesis by (simp add: return_def)
    qed
  qed
qed

lemma keeps_pump_control_start: "keeps off \<Longrightarrow> keeps (pump_control_start off cv cfg)"
  by (rule keepsI) (auto simp add: pump_control_start_def Let_def dest: keepsD [OF keeps_send_signals])

lemma keeps_pump_control_stop:
  assumes "keeps off"
  shows "keeps (pump_control_stop off n cv cfg)"
proof (rule keepsI)
  fix s r s'
  assume ok: "wedges_in_range s" and run: "pump_control_stop off n cv cfg s = Some (r, s')"
  let ?s2 = "(if working_led s then s\<lparr>working_led := False\<rparr> else s)\<lparr>error_led := True\<rparr>"
  let ?send = "send_signals off cv cfg
                 ([''N'', ''J'', ''S'', ''0005''] @ [str (wedge_0005 ?s2)])
                 (Some (pump_stop_timeout cfg))"
  let ?finish = "\<lambda>(_::unit) s3.
                    let s4 = s3\<lparr>error_led := False\<rparr>
                    in return () (if working_led s then s4\<lparr>working_led := True\<rparr> else s4)"
  show "wedges_in_range s'"
  proof (cases "pump s")
    case False
    with run ok show ?thesis by (simp add: pump_control_stop_def return_def)
  next
    case True
    have "keeps (seq (pump_stop_loop n ?send) ?finish)"
      by (intro keeps_seq keeps_pump_stop_loop keeps_send_signals assms)
         (rule keepsI, auto simp add: return_def Let_def split: if_splits)
    moreover from ok have "wedges_in_range ?s2" by simp
    moreover from True run have "seq (pump_stop_loop n ?send) ?finish ?s2 = Some (r, s')"
      by (simp add: pump_control_stop_def Let_def)
    ultimately show ?thesis by (rule keepsD)
  qed
qed

lemma keeps_current: "keeps (\<lambda>s. return (f s) s)"
  by (rule keepsI) (simp add: return_def)

lemma keeps_pump_control: "keeps off \<Longrightarrow> keeps (pump_control off n cv cfg state)"
  unfolding pump_control_def
  by (intro keeps_seq keeps_current, cases state)
     (simp_all add: keeps_return keeps_pump_control_start keeps_pump_control_stop)

lemma keeps_justification:
  assumes "keeps off"
  shows "keeps (justification off cv cfg galley_trip w5 w75)"
proof (rule keepsI)
  fix s r s'
  assume ok: "wedges_in_range s"
    and run: "justification off cv cfg galley_trip w5 w75 s = Some (r, s')"
  have two: "keeps (seq (send_signals off cv cfg a None) (\<lambda>_. send_signals off cv cfg b None))"
    for a b
    by (intro keeps_seq keeps_send_signals assms)
  from run consider "s' = s"
    | a b where "seq (send_signals off cv cfg a None) (\<lambda>_. send_signals off cv cfg b None) s
                   = Some (r, s')"
    by (auto simp add: justification_def Let_def return_def split: if_splits)
  then show "wedges_in_range s'"
  proof cases
    case 1
    with ok show ?thesis by simp
  next
    case 2
    with two ok show ?thesis by (rule keepsD)
  qed
qed

lemma keeps_check_rotation_loop: "keeps body \<Longrightarrow> keeps (check_rotation_loop n body)"
proof (induction n)
  case 0
  show ?case by (rule keepsI) (simp add: return_def)
next
  case (Suc n)
  have "keeps (seq body (\<lambda>_. check_rotation_loop n body))"
    by (intro keeps_seq Suc)
  then show ?case
    by (auto intro!: keepsI dest: keepsD)
qed

lemma keeps_check_rotation: "keeps off \<Longrightarrow> keeps (check_rotation off cfg revolutions)"
  unfolding check_rotation_def Let_def
  by (intro keeps_check_rotation_loop keeps_seq keeps_wait_for_sensor)

lemma keeps_machine_control_start:
  assumes "keeps off"
  shows "keeps (machine_control_start off cfg)"
proof (rule keepsI)
  fix s r s'
  assume ok: "wedges_in_range s" and run: "machine_control_start off cfg s = Some (r, s')"
  have casting: "keeps (seq (water_control off (Some True)) (\<lambda>_.
                         seq (motor_control off (Some True)) (\<lambda>_.
                         check_rotation off cfg 3)))"
    by (intro keeps_seq keeps_water_control keeps_motor_control keeps_check_rotation assms)
  have start: "keeps (seq (air_control off (Some True)) (\<lambda>_.
           seq (\<lambda>s. if operation_mode cfg s = Some ''casting''
                    then seq (water_control off (Some True)) (\<lambda>_.
                         seq (motor_control off (Some True)) (\<lambda>_.
                         check_rotation off cfg 3)) s
                    else return () s) (\<lambda>_ s.
           return () (s\<lparr>working_led := True, working := True\<rparr>))))"
    by (intro keeps_seq keeps_air_control assms keeps_if casting keeps_return keeps_step) simp
  show "wedges_in_range s'"
  proof (cases "working s")
    case True
    with run ok show ?thesis by (simp add: machine_control_start_def raise_def)
  next
    case False
    with run have "seq (air_control off (Some True)) (\<lambda>_.
           seq (\<lambda>s. if operation_mode cfg s = Some ''casting''
                    then seq (water_control off (Some True)) (\<lambda>_.
                         seq (motor_control off (Some True)) (\<lambda>_.
                         check_rotation off cfg 3)) s
                    else return () s) (\<lambda>_ s.
           return () (s\<lparr>working_led := True, working := True\<rparr>)))
             (s\<lparr>meter_events := []\<rparr>) = Some (r, s')"
      by (simp add: machine_control_start_def)
    moreover from ok have "wedges_in_range (s\<lparr>meter_events := []\<rparr>)" by simp
    ultimately show ?thesis using start by (blast intro: keepsD)
  qed
qed

lemma keeps_machine_control_stop:
  assumes "keeps off"
  shows "keeps (machine_control_stop off n cv cfg)"
proof (rule keepsI)
  fix s r s'
  assume ok: "wedges_in_range s" and run: "machine_control_stop off n cv cfg s = Some (r, s')"
  have casting: "keeps (seq (motor_control off (Some False)) (\<lambda>_.
                         seq (water_control off (Some False)) (\<lambda>_.
                         return ())))"
    by (intro keeps_seq keeps_water_control keeps_motor_control keeps_return assms)
  have stop: "keeps (seq (pump_control off n cv cfg (Some False)) (\<lambda>_.
           seq (valves_control off cfg Off) (\<lambda>_.
           seq (\<lambda>s. return () (s\<lparr>signals := []\<rparr>)) (\<lambda>_.
           seq (\<lambda>s. if operation_mode cfg s = Some ''casting''
                    then seq (motor_control off (Some False)) (\<lambda>_.
                         seq (water_control off (Some False)) (\<lambda>_.
                         return ())) s
                    else return () s) (\<lambda>_.
           seq (air_control off (Some False)) (\<lambda>_ s.
           return () (s\<lparr>working_led := False, working := False\<rparr>)))))))"
    by (intro keeps_seq keeps_pump_control keeps_valves_control keeps_air_control assms
        keeps_if casting keeps_return keeps_step) simp_all
  show "wedges_in_range s'"
  proof (cases "working s")
    case False
    with run ok show ?thesis by (simp add: machine_control_stop_def return_def)
  next
    case True
    with run have "seq (pump_control off n cv cfg (Some False)) (\<lambda>_.
           seq (valves_control off cfg Off) (\<lambda>_.
           seq (\<lambda>s. return () (s\<lparr>signals := []\<rparr>)) (\<lambda>_.
           seq (\<lambda>s. if operation_mode cfg s = Some ''casting''
                    then seq (motor_control off (Some False)) (\<lambda>_.
                         seq (water_control off (Some False)) (\<lambda>_.
                         return ())) s
                    else return () s) (\<lambda>_.
           seq (air_control off (Some False)) (\<lambda>_ s.
           return () (s\<lparr>working_led := False, working := False\<rparr>)))))) s = Some (r, s')"
      by (simp add: machine_control_stop_def)
    with stop ok show ?thesis by (rule keepsD)
  qed
qed

lemma keeps_machine_control_off: "keeps (machine_control_off n cv cfg)"
proof (induction n)
  case 0
  show ?case by (rule keepsI) simp
next
  case (Suc n)
  have "keeps (seq (machine_control_stop (machine_control_off n cv cfg) n cv cfg)
                 (\<lambda>_ s'. return (working s') s'))"
    by (intro keeps_seq keeps_machine_control_stop Suc keeps_current)
  then show ?case
    by (auto intro!: keepsI dest: keepsD)
qed

lemma keeps_machine_control: "keeps (machine_control n cv cfg state)"
proof (rule keepsI)
  fix s r s'
  assume ok: "wedges_in_range s" and run: "machine_control n cv cfg state s = Some (r, s')"
  have start: "keeps (seq (machine_control_start (machine_control_off n cv cfg) cfg)
                 (\<lambda>_ s'. return (working s') s'))"
    by (intro keeps_seq keeps_machine_control_start keeps_machine_control_off keeps_current)
  from run consider "s' = s"
    | "seq (machine_control_start (machine_control_off n cv cfg) cfg)
         (\<lambda>_ s'. return (working s') s') s = Some (r, s')"
    | "machine_control_off (Suc n) cv cfg s = Some (r, s')"
    by (cases state) (auto simp add: machine_control_def return_def split: if_splits)
  then show "wedges_in_range s'"
  proof cases
    case 1
    with ok show ?thesis by simp
  next
    case 2
    with start ok show ?thesis by (rule keepsD)
  next
    case 3
    with keeps_machine_control_off ok show ?thesis by (rule keepsD)
  qed
qed

lemma perform_keeps_wedges:
  assumes "wedges_in_range s" and "perform n cv cfg c s = Some s'"
  shows "wedges_in_range s'"
proof -
  note off = keeps_machine_control_off [of n cv cfg]
  have "\<exists>r. m s = Some (r, s')" if "map_option snd (m s) = Some s'"
    for m :: "interface \<Rightarrow> 'a result"
    using that by (cases "m s") auto
  note returned = this
  show ?thesis
  proof (cases c)
    case (MachineControl state)
    with assms(2) returned [of "machine_control n cv cfg state"] obtain r
      where "machine_control n cv cfg state s = Some (r, s')"
      by (auto simp add: perform_def)
    with keeps_machine_control assms(1) show ?thesis by (rule keepsD)
  next
    case (PumpControl state)
    with assms(2) returned [of "pump_control (machine_control_off n cv cfg) n cv cfg state"]
    obtain r where "pump_control (machine_control_off n cv cfg) n cv cfg state s = Some (r, s')"
      by (auto simp add: perform_def)
    with keeps_pump_control [OF off] assms(1) show ?thesis by (rule keepsD)
  next
    case (ValvesControl state)
    with assms(2) returned [of "valves_control (machine_control_off n cv cfg) cfg state"]
    obtain r where "valves_control (machine_control_off n cv cfg) cfg state s = Some (r, s')"
      by (auto simp add: perform_def)
    with keeps_valves_control [OF off] assms(1) show ?thesis by (rule keepsD)
  next
    case (MotorControl state)
    with assms(2) returned [of "motor_control (machine_control_off n cv cfg) state"]
    obtain r where "motor_control (machine_control_off n cv cfg) state s = Some (r, s')"
      by (auto simp add: perform_def)
    with keeps_motor_control [OF off] assms(1) show ?thesis by (rule keepsD)
  next
    case (AirControl state)
    with assms(2) returned [of "air_control (machine_control_off n cv cfg) state"]
    obtain r where "air_control (machine_control_off n cv cfg) state s = Some (r, s')"
      by (auto simp add: perform_def)
    with keeps_air_control [OF off] assms(1) show ?thesis by (rule keepsD)
  next
    case (WaterControl state)
    with assms(2) returned [of "water_control (machine_control_off n cv cfg) state"]
    obtain r where "water_control (machine_control_off n cv cfg) state s = Some (r, s')"
      by (auto simp add: perform_def)
    with keeps_water_control [OF off] assms(1) show ?thesis by (rule keepsD)
  next
    case (Justification galley_trip w5 w75)
    with assms(2)
      returned [of "justification (machine_control_off n cv cfg) cv cfg galley_trip w5 w75"]
    obtain r where
      "justification (machine_control_off n cv cfg) cv cfg galley_trip w5 w75 s = Some (r, s')"
      by (auto simp add: perform_def)
    with keeps_justification [OF off] assms(1) show ?thesis by (rule keepsD)
  next
    case (SendSignalsCall sigs timeout)
    with assms(2) returned [of "send_signals (machine_control_off n cv cfg) cv cfg sigs timeout"]
    obtain r where "send_signals (machine_control_off n cv cfg) cv cfg sigs timeout s = Some (r, s')"
      by (auto simp add: perform_def)
    with keeps_send_signals [OF off] assms(1) show ?thesis by (rule keepsD)
  next
    case (WaitForSensor new_state timeout)
    with assms(2)
      returned [of "wait_for_sensor (machine_control_off n cv cfg) cfg new_state timeout"]
    obtain r where
      "wait_for_sensor (machine_control_off n cv cfg) cfg new_state timeout s = Some (r, s')"
      by (auto simp add: perform_def)
    with keeps_wait_for_sensor [OF off] assms(1) show ?thesis by (rule keepsD)
  next
    case (CheckRotation revolutions)
    with assms(2) returned [of "check_rotation (machine_control_off n cv cfg) cfg revolutions"]
    obtain r where "check_rotation (machine_control_off n cv cfg) cfg revolutions s = Some (r, s')"
      by (auto simp add: perform_def)
    with keeps_check_rotation [OF off] assms(1) show ?thesis by (rule keepsD)
  next
    case (SetOperationMode mode)
    with assms(2) returned [of "set_operation_mode cfg mode"]
    obtain r where "set_operation_mode cfg mode s = Some (r, s')"
      by (auto simp add: perform_def)
    with keeps_set_operation_mode assms(1) show ?thesis by (rule keepsD)
  next
    case (SetRow16Mode mode)
    with assms(2) returned [of "set_row16_mode cfg mode"]
    obtain r where "set_row16_mode cfg mode s = Some (r, s')"
      by (auto simp add: perform_def)
    with keeps_set_row16_mode assms(1) show ?thesis by (rule keepsD)
  qed
qed

lemma reachable_wedges_in_range: "reachable cv cfg s \<Longrightarrow> wedges_in_range s"
proof (induction rule: reachable.induct)
  case (created sensor_in stop_in)
  show ?case by (simp add: wedges_in_range_def init_def)
next
  case (called s n c s')
  then show ?case by (blast intro: perform_keeps_wedges)
next
  case (waited s)
  then show ?case by simp
qed

text \<open>
  C9. In every state the interface can reach, by any sequence of calls that return or
  raise and any passing of time, both wedge positions are between 1 and 15. They start at
  15, and \<^verbatim>\<open>update_pump_and_wedges\<close>, the only code that assigns them, leaves a wedge as it
  is or sets it to the smallest integer name from 1 to 14 among the stored signals, 15 when
  there is none.
\<close>

theorem wedges_stay_in_range:
  "(reachable cv cfg s \<longrightarrow>
      1 \<le> wedge_0005 s \<and> wedge_0005 s \<le> 15 \<and> 1 \<le> wedge_0075 s \<and> wedge_0075 s \<le> 15)
   \<and> wedge_0005 (init sensor_in stop_in) = 15 \<and> wedge_0075 (init sensor_in stop_in) = 15
   \<and> wedge_0075 (update_pump_and_wedges s) =
         (if found [''0075''] s \<or> found [''N'', ''K''] s then smallest_row (signals s)
          else wedge_0075 s)
   \<and> wedge_0005 (update_pump_and_wedges s) =
         (if found [''0005''] s \<or> found [''N'', ''J''] s then smallest_row (signals s)
          else wedge_0005 s)"
proof -
  have "reachable cv cfg s \<longrightarrow>
      1 \<le> wedge_0005 s \<and> wedge_0005 s \<le> 15 \<and> 1 \<le> wedge_0075 s \<and> wedge_0075 s \<le> 15"
    using reachable_wedges_in_range [of cv cfg s] by (simp add: wedges_in_range_def)
  moreover have "wedge_0005 (init sensor_in stop_in) = 15"
    and "wedge_0075 (init sensor_in stop_in) = 15"
    by (simp_all add: init_def)
  ultimately show ?thesis
    using wedge_0075_update [of s] wedge_0005_update [of s] by blast
qed

theorem wedges_stay_in_range_witness:
  "reachable no_row16 (defaults (Some ''punching''))
     ((init [] [])\<lparr>pump := True, wedge_0075 := 3, signals := [''A''],
        trace := [ValvesOn {''N'', ''K'', ''S'', ''0075'', ''3''}, ValvesOn {''A''}]\<rparr>)
   \<and> 1 \<le> wedge_0075 ((init [] [])\<lparr>pump := True, wedge_0075 := 3, signals := [''A''],
        trace := [ValvesOn {''N'', ''K'', ''S'', ''0075'', ''3''}, ValvesOn {''A''}]\<rparr>)
   \<and> wedge_0075 ((init [] [])\<lparr>pump := True, wedge_0075 := 3, signals := [''A''],
        trace := [ValvesOn {''N'', ''K'', ''S'', ''0075'', ''3''}, ValvesOn {''A''}]\<rparr>) \<le> 15
   \<and> found [''0075''] ((init [] [])\<lparr>signals := [''N'', ''K'', ''S'', ''0075'', ''3'']\<rparr>)
   \<and> smallest_row [''N'', ''K'', ''S'', ''0075'', ''3''] = 3"
proof -
  let ?cfg = "defaults (Some ''punching'')"
  let ?s1 = "(init [] [])\<lparr>signals := [''N'', ''K'', ''S'', ''0075'', ''3''],
                trace := [ValvesOn {''N'', ''K'', ''S'', ''0075'', ''3''}]\<rparr>"
  let ?s2 = "(init [] [])\<lparr>pump := True, wedge_0075 := 3, signals := [''A''],
        trace := [ValvesOn {''N'', ''K'', ''S'', ''0075'', ''3''}, ValvesOn {''A''}]\<rparr>"
  have r0: "reachable no_row16 ?cfg (init [] [])"
    by (rule reachable.created)
  have "perform 1 no_row16 ?cfg (ValvesControl (Signals {''N'', ''K'', ''S'', ''0075'', ''3''}))
          (init [] []) = Some ?s1"
    by (simp add: perform_def exec init_def defaults_def)
  with r0 have r1: "reachable no_row16 ?cfg ?s1"
    by (rule reachable.called)
  have "perform 1 no_row16 ?cfg (ValvesControl (Signals {''A''})) ?s1 = Some ?s2"
    by (simp add: perform_def exec init_def defaults_def)
  with r1 have r2: "reachable no_row16 ?cfg ?s2"
    by (rule reachable.called)
  have code: "found [''0075''] ((init [] [])\<lparr>signals := [''N'', ''K'', ''S'', ''0075'', ''3'']\<rparr>)"
    by (simp add: found_def)
  have row: "wedge_0075 (update_pump_and_wedges
               ((init [] [])\<lparr>signals := [''N'', ''K'', ''S'', ''0075'', ''3'']\<rparr>)) = 3"
    by (simp add: exec init_def)
  from wedges_stay_in_range [of no_row16 ?cfg ?s2]
       wedges_stay_in_range
         [of no_row16 ?cfg "(init [] [])\<lparr>signals := [''N'', ''K'', ''S'', ''0075'', ''3'']\<rparr>"]
       r2 code row
  show ?thesis by simp
qed

end
